theory Spec2Isabelle
  imports Main "HOL-Library.Sublist" "HOL-Library.AList"
begin

section \<open>The local MCP proxy (local-mcp-proxy.cjs)\<close>

text \<open>
  The file is one HTTP server with a router and three handlers; \<open>proxySSE\<close> is the
  streaming relay. Its control flow is event driven: \<open>proxySSE\<close> runs once, registers
  listeners, and the rest of the exchange happens in those listeners. The embedding has
  the same shape: \<open>proxySSE\<close> computes the session reached when the function returns, and
  \<open>step\<close> runs the listener that the source registered for an event.

  Strings are byte lists. A JavaScript value that may be \<open>undefined\<close> or \<open>null\<close> is an
  \<open>option\<close>; a call that may throw returns a sum whose left summand is the message of the
  thrown error.
\<close>

subsection \<open>JavaScript operators used by the file\<close>

text \<open>\<open>a || b\<close> on a string that may be undefined: the empty string is falsy too.\<close>

definition or_string :: "string option \<Rightarrow> string \<Rightarrow> string" where
  "or_string a b = (case a of None \<Rightarrow> b | Some v \<Rightarrow> if v = [] then b else v)"

text \<open>\<open>a || b\<close> on a number that may be undefined: zero is falsy too.\<close>

definition or_number :: "nat option \<Rightarrow> nat \<Rightarrow> nat" where
  "or_number a b = (case a of None \<Rightarrow> b | Some n \<Rightarrow> if n = 0 then b else n)"

text \<open>\<open>String.prototype.includes\<close>: the needle occurs at some position of the string.\<close>

primrec includes_string :: "string \<Rightarrow> string \<Rightarrow> bool" where
  "includes_string [] needle = (needle = [])"
| "includes_string (c # cs) needle = (prefix needle (c # cs) \<or> includes_string cs needle)"

text \<open>
  \<open>JSON.stringify\<close> on the objects the file builds: flat objects whose values are strings
  or booleans. \<open>quote\<close> is the QuoteJSONString operation on 8-bit characters: the double
  quote, the backslash and the control characters are escaped.
\<close>

datatype json = JString string | JBool bool

definition hexdigit :: "nat \<Rightarrow> char" where
  "hexdigit n = ''0123456789abcdef'' ! (n mod 16)"

definition escape :: "char \<Rightarrow> string" where
  "escape c =
     (if c = CHR 0x22 then [CHR 0x5C, CHR 0x22]
      else if c = CHR 0x5C then [CHR 0x5C, CHR 0x5C]
      else if c = CHR 0x08 then [CHR 0x5C, CHR ''b'']
      else if c = CHR 0x0C then [CHR 0x5C, CHR ''f'']
      else if c = CHR 0x0A then [CHR 0x5C, CHR ''n'']
      else if c = CHR 0x0D then [CHR 0x5C, CHR ''r'']
      else if c = CHR 0x09 then [CHR 0x5C, CHR ''t'']
      else if (of_char c :: nat) < 32
        then [CHR 0x5C, CHR ''u'', CHR ''0'', CHR ''0'',
              hexdigit ((of_char c :: nat) div 16), hexdigit ((of_char c :: nat) mod 16)]
      else [c])"

text \<open>The decimal digits of a number, as string conversion writes them.\<close>

function number_to_string :: "nat \<Rightarrow> string" where
  "number_to_string n =
     (if n < 10 then [hexdigit n] else number_to_string (n div 10) @ [hexdigit (n mod 10)])"
  by pat_completeness auto
termination
  by (relation "measure (\<lambda>n. n)") auto

declare number_to_string.simps [simp del]

definition quote :: "string \<Rightarrow> string" where
  "quote s = CHR 0x22 # concat (map escape s) @ [CHR 0x22]"

definition stringify_value :: "json \<Rightarrow> string" where
  "stringify_value v =
     (case v of JString s \<Rightarrow> quote s | JBool b \<Rightarrow> if b then ''true'' else ''false'')"

fun stringify_members :: "(string \<times> json) list \<Rightarrow> string" where
  "stringify_members [] = []"
| "stringify_members [(k, v)] = quote k @ '':'' @ stringify_value v"
| "stringify_members ((k, v) # kvs) =
     quote k @ '':'' @ stringify_value v @ '','' @ stringify_members kvs"

definition JSON_stringify :: "(string \<times> json) list \<Rightarrow> string" where
  "JSON_stringify obj = ''{'' @ stringify_members obj @ ''}''"

subsection \<open>Data of one exchange\<close>

text \<open>
  Header objects written as literals are association lists in the order written;
  \<open>IncomingMessage.headers\<close> is a map from the lower-cased name to the value.
\<close>

type_synonym header_list = "(string \<times> string) list"
type_synonym header_map = "string \<rightharpoonup> string"

record request =
  req_method :: string
  url :: string
  headers :: header_map

text \<open>The fields of a WHATWG \<open>URL\<close> object that the file reads.\<close>

record URL =
  protocol :: string
  hostname :: string
  port :: string
  pathname :: string
  search :: string
  searchParams :: "(string \<times> string) list"

text \<open>\<open>searchParams.get(name)\<close>: the first value of that name, or null.\<close>

definition searchParams_get :: "URL \<Rightarrow> string \<Rightarrow> string option" where
  "searchParams_get u name = map_of (searchParams u) name"

datatype transport = Http | Https

text \<open>\<open>options.port\<close> is the string \<open>t.port\<close> when it is not empty, else a number.\<close>

datatype port_value = PortString string | PortNumber nat

record options =
  opt_method :: string
  opt_protocol :: string
  opt_hostname :: string
  opt_port :: port_value
  opt_path :: string
  opt_headers :: header_list

subsection \<open>The caller's response object\<close>

text \<open>
  The state of an \<open>http.ServerResponse\<close>: the headers set so far, whether the head has
  been flushed, the status written with it, the body chunks that \<open>write\<close> and \<open>end\<close> took
  before the response was ended, and whether it has been ended. \<open>body\<close> is the log of
  what the proxy wrote; the model does not follow whether the caller is still connected
  to receive it. A failing call gives the message of its error:
  \<^item> \<open>setHeader\<close> and \<open>writeHead\<close> throw ERR_HTTP_HEADERS_SENT once the head is out, and
    \<open>writeHead\<close> throws ERR_HTTP_INVALID_STATUS_CODE on a status outside 100..999;
  \<^item> \<open>write\<close>, and \<open>end\<close> with a chunk, on a response that has been ended raise
    ERR_STREAM_WRITE_AFTER_END as an \<open>error\<close> event of the response, for which the file
    has no listener; \<open>end\<close> without a chunk is then a no-op.
  \<open>write\<close> and \<open>end\<close> flush the head implicitly. Header names are compared as written
  (the file spells each name one way only).
\<close>

record response =
  outHeaders :: header_list
  headersSent :: bool
  statusCode :: nat
  body :: "string list"
  finished :: bool

definition new_response :: response where
  "new_response =
     \<lparr>outHeaders = [], headersSent = False, statusCode = 200, body = [], finished = False\<rparr>"

definition setHeader :: "string \<Rightarrow> string \<Rightarrow> response \<Rightarrow> string + response" where
  "setHeader name v r =
     (if headersSent r then Inl ''Cannot set headers after they are sent to the client''
      else Inr (r\<lparr>outHeaders := AList.update name v (outHeaders r)\<rparr>))"

definition writeHead :: "nat \<Rightarrow> header_list \<Rightarrow> response \<Rightarrow> string + response" where
  "writeHead st hs r =
     (if headersSent r then Inl ''Cannot write headers after they are sent to the client''
      else if st < 100 \<or> 999 < st then Inl (''Invalid status code: '' @ number_to_string st)
      else Inr (r\<lparr>outHeaders := fold (\<lambda>(name, v). AList.update name v) hs (outHeaders r),
                  headersSent := True, statusCode := st\<rparr>))"

definition res_write :: "string \<Rightarrow> response \<Rightarrow> string + response" where
  "res_write chunk r =
     (if finished r then Inl ''write after end''
      else Inr (r\<lparr>headersSent := True, body := body r @ [chunk]\<rparr>))"

definition res_end :: "string option \<Rightarrow> response \<Rightarrow> string + response" where
  "res_end chunk r =
     (if finished r then (case chunk of None \<Rightarrow> Inr r | Some c \<Rightarrow> Inl ''write after end'')
      else Inr (r\<lparr>headersSent := True,
                  body := body r @ (case chunk of None \<Rightarrow> [] | Some c \<Rightarrow> [c]),
                  finished := True\<rparr>))"

subsection \<open>The outbound request object\<close>

text \<open>
  The \<open>http.ClientRequest\<close> returned by \<open>client.request\<close>: the transport chosen, the options
  it was created with, the body chunks written to it, whether \<open>end()\<close> finalised it, and
  whether \<open>destroy()\<close> tore the connection down. A write after \<open>end()\<close> sends nothing.
  No line of the file calls \<open>destroy()\<close> or \<open>abort()\<close>, so no function below sets
  \<open>destroyed\<close>.
\<close>

record client_request =
  client :: transport
  request_options :: options
  sent :: "string list"
  ended :: bool
  destroyed :: bool

definition upstream_write :: "string \<Rightarrow> client_request \<Rightarrow> client_request" where
  "upstream_write chunk u = (if ended u then u else u\<lparr>sent := sent u @ [chunk]\<rparr>)"

definition upstream_end :: "client_request \<Rightarrow> client_request" where
  "upstream_end u = u\<lparr>ended := True\<rparr>"

subsection \<open>The session of one proxied exchange\<close>

text \<open>
  What \<open>proxySSE\<close> leaves behind when it returns: the caller's response, the outbound
  request if one was created (without one there is no connection to an upstream, and
  no attempt at one), and which listeners are registered. \<open>req_listening\<close> is set
  when the \<open>data\<close> and \<open>end\<close> listeners were put on the inbound request (line 66-67),
  \<open>ur_listening\<close> when the response callback has put its listeners on the upstream
  response (line 55-57). \<open>uncaught\<close> holds the message of an exception thrown where no
  \<open>try\<close> encloses it; the process does not survive it.
\<close>

record session =
  res :: response
  upstream :: "client_request option"
  req_listening :: bool
  ur_listening :: bool
  uncaught :: "string option"

definition idle_session :: "response \<Rightarrow> session" where
  "idle_session r =
     \<lparr>res = r, upstream = None, req_listening = False, ur_listening = False, uncaught = None\<rparr>"

text \<open>
  The outcome of a \<open>write\<close> or \<open>end\<close> on the caller's response. Its error is an event
  without a listener, which no \<open>try\<close> block catches.
\<close>

definition respond :: "session \<Rightarrow> string + response \<Rightarrow> session" where
  "respond s x = (case x of Inl e \<Rightarrow> s\<lparr>uncaught := Some e\<rparr> | Inr r \<Rightarrow> s\<lparr>res := r\<rparr>)"

subsection \<open>cors (line 8-12)\<close>

definition cors :: "response \<Rightarrow> string + response" where
  "cors r =
     (case setHeader ''Access-Control-Allow-Origin'' ''*'' r of
        Inl e \<Rightarrow> Inl e
      | Inr r1 \<Rightarrow>
          (case setHeader ''Access-Control-Allow-Methods'' ''GET,POST,OPTIONS,HEAD'' r1 of
             Inl e \<Rightarrow> Inl e
           | Inr r2 \<Rightarrow>
               setHeader ''Access-Control-Allow-Headers''
                 ''Content-Type, Authorization, Accept, Cache-Control'' r2))"

subsection \<open>proxySSE (line 20-75)\<close>

text \<open>
  Two things the function calls are not in the file and are parameters of the model:
  \<open>new_URL input base\<close> is the \<open>URL\<close> constructor (it throws a TypeError on input that
  does not parse), and \<open>request_error client options\<close> is the message of the error that
  \<open>client.request\<close> throws synchronously for these options, if it throws.
\<close>

type_synonym url_constructor = "string \<Rightarrow> string option \<Rightarrow> string + URL"
type_synonym request_check = "transport \<Rightarrow> options \<Rightarrow> string option"

text \<open>The template literal \<open>http://${req.headers.host}\<close> (line 23).\<close>

definition base_of :: "request \<Rightarrow> string" where
  "base_of req = ''http://'' @ (case headers req ''host'' of None \<Rightarrow> ''undefined'' | Some h \<Rightarrow> h)"

text \<open>The object literal \<open>options\<close> (line 32-45).\<close>

definition outbound_headers :: "request \<Rightarrow> header_list" where
  "outbound_headers req =
     [(''Accept'', or_string (headers req ''accept'') ''text/event-stream''),
      (''Content-Type'', or_string (headers req ''content-type'') ''application/json''),
      (''Cache-Control'', ''no-cache''),
      (''Connection'', ''keep-alive''),
      (''User-Agent'', ''mcp-inspector-local-proxy'')]"

definition outbound_options :: "request \<Rightarrow> URL \<Rightarrow> options" where
  "outbound_options req t =
     \<lparr>opt_method = req_method req,
      opt_protocol = protocol t,
      opt_hostname = hostname t,
      opt_port = (if port t \<noteq> [] then PortString (port t)
                  else PortNumber (if protocol t = ''https:'' then 443 else 80)),
      opt_path = pathname t @ or_string (Some (search t)) [],
      opt_headers = outbound_headers req\<rparr>"

text \<open>The reply of line 26-27.\<close>

definition missing_url_param :: "response \<Rightarrow> (string \<times> response) + session" where
  "missing_url_param r =
     (case writeHead 400 [(''Content-Type'', ''application/json'')] r of
        Inl e \<Rightarrow> Inl (e, r)
      | Inr r' \<Rightarrow>
          Inr (respond (idle_session r')
            (res_end (Some (JSON_stringify [(''error'', JString ''missing url param'')])) r')))"

text \<open>
  The body of the \<open>try\<close> block. A throw carries the response as it is at that moment to
  the \<open>catch\<close> block. \<open>!target\<close> holds for null and for the empty string.
\<close>

definition proxySSE_try ::
  "url_constructor \<Rightarrow> request_check \<Rightarrow> request \<Rightarrow> response \<Rightarrow> (string \<times> response) + session"
where
  "proxySSE_try new_URL request_error req r0 =
     (case cors r0 of
        Inl e \<Rightarrow> Inl (e, r0)
      | Inr r \<Rightarrow>
     (case new_URL (url req) (Some (base_of req)) of
        Inl e \<Rightarrow> Inl (e, r)
      | Inr u \<Rightarrow>
     (case searchParams_get u ''url'' of
        None \<Rightarrow> missing_url_param r
      | Some target \<Rightarrow>
          if target = [] then missing_url_param r
          else
     (case new_URL target None of
        Inl e \<Rightarrow> Inl (e, r)
      | Inr t \<Rightarrow>
          let cl = (if protocol t = ''https:'' then Https else Http);
              opts = outbound_options req t
          in (case request_error cl opts of
                Some e \<Rightarrow> Inl (e, r)
              | None \<Rightarrow>
                  let up = \<lparr>client = cl, request_options = opts, sent = [],
                            ended = False, destroyed = False\<rparr>
                  in Inr \<lparr>res = r,
                          upstream = Some (if req_method req = ''POST'' then up else upstream_end up),
                          req_listening = (req_method req = ''POST''),
                          ur_listening = False,
                          uncaught = None\<rparr>)))))"

text \<open>The \<open>catch\<close> block (line 71-74).\<close>

definition proxySSE_catch :: "string \<Rightarrow> response \<Rightarrow> session" where
  "proxySSE_catch message r =
     (let payload = JSON_stringify [(''error'', JString ''proxy error''),
                                    (''message'', JString (or_string (Some message) ''unknown''))]
      in if \<not> headersSent r then
           (case writeHead 500 [(''Content-Type'', ''application/json'')] r of
              Inl e \<Rightarrow> (idle_session r)\<lparr>uncaught := Some e\<rparr>
            | Inr r' \<Rightarrow> respond (idle_session r') (res_end (Some payload) r'))
         else respond (idle_session r) (res_end (Some payload) r))"

definition proxySSE :: "url_constructor \<Rightarrow> request_check \<Rightarrow> request \<Rightarrow> response \<Rightarrow> session" where
  "proxySSE new_URL request_error req r0 =
     (case proxySSE_try new_URL request_error req r0 of
        Inr s \<Rightarrow> s
      | Inl (message, r) \<Rightarrow> proxySSE_catch message r)"

subsection \<open>The listeners\<close>

text \<open>
  The events the runtime can deliver to the objects of a session. \<open>UpstreamResponse\<close> is
  the call of the response callback with the upstream's status code and headers;
  \<open>ResponseData\<close>, \<open>ResponseEnd\<close> and \<open>ResponseError\<close> are events of the upstream
  response; \<open>UpstreamError\<close> is the \<open>error\<close> event of the outbound request with the
  error's message; \<open>RequestData\<close>, \<open>RequestEnd\<close> and \<open>RequestClose\<close> are events of the
  inbound request, the last one being the caller's disconnect.
\<close>

datatype event =
    RequestData string
  | RequestEnd
  | RequestClose
  | UpstreamResponse "nat option" header_map
  | ResponseData string
  | ResponseEnd
  | ResponseError
  | UpstreamError string

text \<open>The arguments of \<open>res.writeHead\<close> in the response callback (line 48-54).\<close>

definition response_head :: "nat option \<Rightarrow> header_map \<Rightarrow> nat \<times> header_list" where
  "response_head st hs =
     (let isSSE = includes_string (or_string (hs ''content-type'') []) ''text/event-stream''
      in (or_number st 200,
          [(''Content-Type'', if isSSE then ''text/event-stream''
                              else or_string (hs ''content-type'') ''application/json''),
           (''Cache-Control'', ''no-cache''),
           (''Connection'', ''keep-alive''),
           (''Access-Control-Allow-Origin'', ''*'')]))"

text \<open>The response callback (line 47-58).\<close>

definition on_response :: "nat option \<Rightarrow> header_map \<Rightarrow> session \<Rightarrow> session" where
  "on_response st hs s =
     (case writeHead (fst (response_head st hs)) (snd (response_head st hs)) (res s) of
        Inl e \<Rightarrow> s\<lparr>uncaught := Some e\<rparr>
      | Inr r \<Rightarrow> s\<lparr>res := r, ur_listening := True\<rparr>)"

text \<open>The \<open>error\<close> listener of the outbound request (line 60-63).\<close>

definition on_upstream_error :: "string \<Rightarrow> session \<Rightarrow> session" where
  "on_upstream_error message s =
     (let payload = JSON_stringify [(''error'', JString ''bad gateway''),
                                    (''message'', JString message)]
      in if \<not> headersSent (res s) then
           (case writeHead 502 [(''Content-Type'', ''application/json'')] (res s) of
              Inl e \<Rightarrow> s\<lparr>uncaught := Some e\<rparr>
            | Inr r \<Rightarrow> respond s (res_end (Some payload) r))
         else respond s (res_end (Some payload) (res s)))"

text \<open>
  One event. A session without an outbound request has no listener at all; an event for
  which the source registered no listener changes nothing; nothing runs after an
  uncaught exception. The \<open>try\<close> of line 57 encloses an \<open>end\<close> without a chunk, which
  raises nothing.
\<close>

definition step :: "session \<Rightarrow> event \<Rightarrow> session" where
  "step s ev =
     (case upstream s of
        None \<Rightarrow> s
      | Some up \<Rightarrow>
          if uncaught s \<noteq> None then s
          else (case ev of
                  RequestData c \<Rightarrow>
                    if req_listening s then s\<lparr>upstream := Some (upstream_write c up)\<rparr> else s
                | RequestEnd \<Rightarrow>
                    if req_listening s then s\<lparr>upstream := Some (upstream_end up)\<rparr> else s
                | RequestClose \<Rightarrow> s
                | UpstreamResponse st hs \<Rightarrow> on_response st hs s
                | ResponseData c \<Rightarrow>
                    if ur_listening s then respond s (res_write c (res s)) else s
                | ResponseEnd \<Rightarrow>
                    if ur_listening s then respond s (res_end None (res s)) else s
                | ResponseError \<Rightarrow>
                    if ur_listening s then respond s (res_end None (res s)) else s
                | UpstreamError message \<Rightarrow> on_upstream_error message s))"

definition run :: "session \<Rightarrow> event list \<Rightarrow> session" where
  "run s evs = foldl step s evs"

subsection \<open>The router (line 77-92)\<close>

text \<open>
  The request listener of the server. \<open>now\<close> is \<open>new Date().toISOString()\<close> at the time of
  the call. Every request gets a new response object. An exception here is outside any
  \<open>try\<close>.
\<close>

definition reply :: "nat \<Rightarrow> header_list \<Rightarrow> string option \<Rightarrow> session" where
  "reply st hs payload =
     (case cors new_response of
        Inl e \<Rightarrow> (idle_session new_response)\<lparr>uncaught := Some e\<rparr>
      | Inr r \<Rightarrow>
          (case writeHead st hs r of
             Inl e \<Rightarrow> (idle_session r)\<lparr>uncaught := Some e\<rparr>
           | Inr r' \<Rightarrow> respond (idle_session r') (res_end payload r')))"

definition health :: "string \<Rightarrow> session" where
  "health now =
     reply 200 [(''Content-Type'', ''application/json'')]
       (Some (JSON_stringify [(''ok'', JBool True), (''time'', JString now)]))"

definition server :: "url_constructor \<Rightarrow> request_check \<Rightarrow> string \<Rightarrow> request \<Rightarrow> session" where
  "server new_URL request_error now req =
     (if req_method req = ''OPTIONS'' \<or> req_method req = ''HEAD'' then reply 200 [] None
      else if prefix ''/health'' (url req) then health now
      else if prefix ''/sse'' (url req) then proxySSE new_URL request_error req new_response
      else if prefix ''/config'' (url req) then
        reply 200 [(''Content-Type'', ''application/json'')]
          (Some (JSON_stringify [(''ok'', JBool True)]))
      else reply 404 [(''Content-Type'', ''application/json'')]
             (Some (JSON_stringify [(''error'', JString ''not found'')])))"

subsection \<open>Constants of the statements\<close>

text \<open>The three headers that \<open>cors\<close> sets, in its order.\<close>

definition cors_headers :: header_list where
  "cors_headers =
     [(''Access-Control-Allow-Origin'', ''*''),
      (''Access-Control-Allow-Methods'', ''GET,POST,OPTIONS,HEAD''),
      (''Access-Control-Allow-Headers'', ''Content-Type, Authorization, Accept, Cache-Control'')]"

text \<open>
  The body chunks that the inbound \<open>data\<close> listener hands to the outbound request over a
  sequence of events: those that arrive before the inbound \<open>end\<close>.
\<close>

fun forwarded :: "event list \<Rightarrow> string list" where
  "forwarded [] = []"
| "forwarded (RequestData c # evs) = c # forwarded evs"
| "forwarded (RequestEnd # evs) = []"
| "forwarded (ev # evs) = forwarded evs"

text \<open>The events of the inbound request, which no listener of the caller's response sees.\<close>

fun inbound :: "event \<Rightarrow> bool" where
  "inbound (RequestData c) = True"
| "inbound RequestEnd = True"
| "inbound RequestClose = True"
| "inbound ev = False"

subsection \<open>An instance of the two parameters\<close>

text \<open>
  The examples below need a concrete \<open>URL\<close> constructor. \<open>example_URL\<close> gives the result
  of the constructor on the inputs listed here, for a proxy reached as
  \<open>localhost:6277\<close> or \<open>127.0.0.1:6277\<close>: the request URLs of \<open>example_query\<close>, with
  their query part and its decoded parameters, against the two bases; the echo target,
  which parses; \<open>not a url\<close>, which has no scheme, and the base \<open>http://[\<close> of a request
  whose \<open>Host\<close> header is \<open>[\<close>, which has no host, so that on these two the constructor
  throws its TypeError with the message \<open>Invalid URL\<close>. On an input not listed it throws
  as well; it stands for the constructor on the listed inputs only.
\<close>

definition example_query :: "string \<Rightarrow> (string \<times> (string \<times> string) list) option" where
  "example_query input =
     (if input = ''/sse'' then Some ([], [])
      else if input = ''/sse?url='' then Some (''?url='', [(''url'', [])])
      else if input = ''/sse?url=not%20a%20url'' then
        Some (''?url=not%20a%20url'', [(''url'', ''not a url'')])
      else if input = ''/sse?url=http%3A%2F%2F127.0.0.1%3A9001%2Fecho'' then
        Some (''?url=http%3A%2F%2F127.0.0.1%3A9001%2Fecho'',
              [(''url'', ''http://127.0.0.1:9001/echo'')])
      else None)"

definition example_base :: "string \<Rightarrow> string option" where
  "example_base base =
     (if base = ''http://localhost:6277'' then Some ''localhost''
      else if base = ''http://127.0.0.1:6277'' then Some ''127.0.0.1''
      else None)"

definition example_URL :: url_constructor where
  "example_URL input base =
     (case base of
        None \<Rightarrow>
          if input = ''http://127.0.0.1:9001/echo'' then
            Inr \<lparr>protocol = ''http:'', hostname = ''127.0.0.1'', port = ''9001'',
                 pathname = ''/echo'', search = [], searchParams = []\<rparr>
          else if input = ''not a url'' then Inl ''Invalid URL''
          else Inl ''Invalid URL''
      | Some b \<Rightarrow>
          if b = ''http://['' then Inl ''Invalid URL''
          else
          (case (example_base b, example_query input) of
             (Some h, Some (q, ps)) \<Rightarrow>
               Inr \<lparr>protocol = ''http:'', hostname = h, port = ''6277'',
                    pathname = ''/sse'', search = q, searchParams = ps\<rparr>
           | _ \<Rightarrow> Inl ''Invalid URL''))"

text \<open>\<open>client.request\<close> does not throw on the options of the examples.\<close>

definition example_check :: request_check where
  "example_check cl opts = None"

definition example_request :: "string \<Rightarrow> string \<Rightarrow> header_list \<Rightarrow> request" where
  "example_request m u hs = \<lparr>req_method = m, url = u, headers = map_of hs\<rparr>"

definition echo_options :: "string \<Rightarrow> string \<Rightarrow> string \<Rightarrow> options" where
  "echo_options m accept content_type =
     \<lparr>opt_method = m, opt_protocol = ''http:'', opt_hostname = ''127.0.0.1'',
      opt_port = PortString ''9001'', opt_path = ''/echo'',
      opt_headers = [(''Accept'', accept), (''Content-Type'', content_type),
                     (''Cache-Control'', ''no-cache''), (''Connection'', ''keep-alive''),
                     (''User-Agent'', ''mcp-inspector-local-proxy'')]\<rparr>"

text \<open>
  Two requests for the upstream \<open>http://127.0.0.1:9001/echo\<close>: a GET that carries
  credentials, and a POST. \<open>example_get_other\<close> is the GET sent to the proxy under its
  other name, with other credentials and an \<open>Origin\<close>.
\<close>

definition example_get :: request where
  "example_get = example_request ''GET'' ''/sse?url=http%3A%2F%2F127.0.0.1%3A9001%2Fecho''
     [(''host'', ''localhost:6277''), (''accept'', ''*/*''),
      (''authorization'', ''Bearer secret''), (''cookie'', ''sid=1'')]"

definition example_post :: request where
  "example_post = example_request ''POST'' ''/sse?url=http%3A%2F%2F127.0.0.1%3A9001%2Fecho''
     [(''host'', ''localhost:6277''), (''content-type'', ''text/plain'')]"

definition example_get_other :: request where
  "example_get_other = example_request ''GET'' ''/sse?url=http%3A%2F%2F127.0.0.1%3A9001%2Fecho''
     [(''host'', ''127.0.0.1:6277''), (''accept'', ''*/*''),
      (''authorization'', ''Bearer other''), (''origin'', ''http://evil.example'')]"

text \<open>
  The GET after the upstream has answered with an event stream and sent one chunk, and
  the answer of the echo upstream with a header of its own.
\<close>

definition example_stream :: session where
  "example_stream =
     run (proxySSE example_URL example_check example_get new_response)
       [UpstreamResponse (Some 200) (map_of [(''content-type'', ''text/event-stream'')]),
        ResponseData ''data: tick'']"

definition echo_headers :: header_map where
  "echo_headers = map_of [(''content-type'', ''application/json''), (''x-request-id'', ''42'')]"

section \<open>Facts about the model\<close>

lemma includes_string_iff: "includes_string s n \<longleftrightarrow> (\<exists>p q. s = p @ n @ q)"
proof (induction s)
  case Nil then show ?case by auto
next
  case (Cons c cs)
  show ?case
  proof
    assume "includes_string (c # cs) n"
    then consider "prefix n (c # cs)" | "includes_string cs n" by auto
    then show "\<exists>p q. c # cs = p @ n @ q"
    proof cases
      case 1
      then obtain q where "c # cs = n @ q" by (auto simp: prefix_def)
      then have "c # cs = [] @ n @ q" by simp
      then show ?thesis by blast
    next
      case 2
      with Cons.IH obtain p q where "cs = p @ n @ q" by blast
      then have "c # cs = (c # p) @ n @ q" by simp
      then show ?thesis by blast
    qed
  next
    assume "\<exists>p q. c # cs = p @ n @ q"
    then obtain p q where pq: "c # cs = p @ n @ q" by blast
    show "includes_string (c # cs) n"
    proof (cases p)
      case Nil
      with pq have "prefix n (c # cs)" by (simp add: prefix_def)
      then show ?thesis by simp
    next
      case (Cons a p')
      with pq have "cs = p' @ n @ q" by simp
      with Cons.IH have "includes_string cs n" by blast
      then show ?thesis by simp
    qed
  qed
qed

lemma cors_new_response:
  "cors new_response = Inr (new_response\<lparr>outHeaders := cors_headers\<rparr>)"
  by (simp add: cors_def setHeader_def new_response_def cors_headers_def)

lemma stringify_missing:
  \<open>JSON_stringify [(''error'', JString ''missing url param'')] = ''{"error":"missing url param"}''\<close>
  by (simp add: JSON_stringify_def quote_def escape_def stringify_value_def)

lemma stringify_error_message:
  \<open>JSON_stringify [(''error'', JString ''bad gateway''), (''message'', JString m)] =
     ''{"error":"bad gateway","message":'' @ quote m @ ''}''\<close>
  \<open>JSON_stringify [(''error'', JString ''proxy error''), (''message'', JString m)] =
     ''{"error":"proxy error","message":'' @ quote m @ ''}''\<close>
  by (simp_all add: JSON_stringify_def quote_def escape_def stringify_value_def)

lemma missing_url_param_cors:
  \<open>missing_url_param (new_response\<lparr>outHeaders := cors_headers\<rparr>) =
     Inr (idle_session
       \<lparr>outHeaders = cors_headers @ [(''Content-Type'', ''application/json'')],
        headersSent = True, statusCode = 400,
        body = [''{"error":"missing url param"}''], finished = True\<rparr>)\<close>
  by (simp add: missing_url_param_def writeHead_def res_end_def respond_def idle_session_def
      new_response_def cors_headers_def stringify_missing)

lemma respond_fields:
  "upstream (respond s x) = upstream s"
  "req_listening (respond s x) = req_listening s"
  "ur_listening (respond s x) = ur_listening s"
  by (simp_all add: respond_def split: sum.splits)

lemma upstream_missing_url_param: "missing_url_param r = Inr s \<Longrightarrow> upstream s = None"
  by (auto simp: missing_url_param_def idle_session_def respond_fields split: sum.splits)

lemma upstream_proxySSE_catch: "upstream (proxySSE_catch m r) = None"
  by (simp add: proxySSE_catch_def idle_session_def respond_fields Let_def split: sum.splits)

text \<open>What is known when \<open>proxySSE\<close> has created an outbound request.\<close>

lemma proxySSE_try_upstream:
  assumes "proxySSE_try new_URL request_error req r0 = Inr s" and "upstream s = Some up"
  obtains r u target t where
    "cors r0 = Inr r"
    "new_URL (url req) (Some (base_of req)) = Inr u"
    "searchParams_get u ''url'' = Some target" "target \<noteq> []"
    "new_URL target None = Inr t"
    "request_error (if protocol t = ''https:'' then Https else Http) (outbound_options req t) = None"
    "s = \<lparr>res = r,
        upstream = Some \<lparr>client = (if protocol t = ''https:'' then Https else Http),
                         request_options = outbound_options req t, sent = [],
                         ended = (req_method req \<noteq> ''POST''), destroyed = False\<rparr>,
        req_listening = (req_method req = ''POST''), ur_listening = False, uncaught = None\<rparr>"
proof -
  from assms(1) obtain r where r: "cors r0 = Inr r"
    by (cases "cors r0") (simp_all add: proxySSE_try_def)
  from assms(1) r obtain u where u: "new_URL (url req) (Some (base_of req)) = Inr u"
    by (cases "new_URL (url req) (Some (base_of req))") (simp_all add: proxySSE_try_def)
  from assms r u obtain target where tg: "searchParams_get u ''url'' = Some target"
    by (cases "searchParams_get u ''url''")
       (auto simp: proxySSE_try_def dest: upstream_missing_url_param)
  have ne: "target \<noteq> []"
  proof
    assume "target = []"
    with assms(1) r u tg have "missing_url_param r = Inr s"
      by (simp add: proxySSE_try_def)
    then have "upstream s = None" by (rule upstream_missing_url_param)
    with assms(2) show False by simp
  qed
  from assms(1) r u tg ne obtain t where t: "new_URL target None = Inr t"
    by (cases "new_URL target None") (simp_all add: proxySSE_try_def)
  let ?cl = "if protocol t = ''https:'' then Https else Http"
  from assms(1) r u tg ne t have chk: "request_error ?cl (outbound_options req t) = None"
    by (cases "request_error ?cl (outbound_options req t)")
       (simp_all add: proxySSE_try_def Let_def)
  from assms(1) r u tg ne t chk have
    "s = \<lparr>res = r,
        upstream = Some \<lparr>client = ?cl,
                         request_options = outbound_options req t, sent = [],
                         ended = (req_method req \<noteq> ''POST''), destroyed = False\<rparr>,
        req_listening = (req_method req = ''POST''), ur_listening = False, uncaught = None\<rparr>"
    by (auto simp add: proxySSE_try_def Let_def upstream_end_def)
  with r u tg ne t chk show thesis by (rule that)
qed

lemma proxySSE_upstream:
  assumes "upstream (proxySSE new_URL request_error req r0) = Some up"
  obtains r u target t where
    "cors r0 = Inr r"
    "new_URL (url req) (Some (base_of req)) = Inr u"
    "searchParams_get u ''url'' = Some target" "target \<noteq> []"
    "new_URL target None = Inr t"
    "request_error (if protocol t = ''https:'' then Https else Http) (outbound_options req t) = None"
    "proxySSE new_URL request_error req r0 =
       \<lparr>res = r,
        upstream = Some \<lparr>client = (if protocol t = ''https:'' then Https else Http),
                         request_options = outbound_options req t, sent = [],
                         ended = (req_method req \<noteq> ''POST''), destroyed = False\<rparr>,
        req_listening = (req_method req = ''POST''), ur_listening = False, uncaught = None\<rparr>"
proof (cases "proxySSE_try new_URL request_error req r0")
  case (Inl a)
  with assms show ?thesis
    by (cases a) (simp add: proxySSE_def upstream_proxySSE_catch)
next
  case (Inr s)
  with assms have "upstream s = Some up" by (simp add: proxySSE_def)
  from proxySSE_try_upstream [OF Inr this] obtain r u target t where
    "cors r0 = Inr r"
    "new_URL (url req) (Some (base_of req)) = Inr u"
    "searchParams_get u ''url'' = Some target" "target \<noteq> []"
    "new_URL target None = Inr t"
    "request_error (if protocol t = ''https:'' then Https else Http) (outbound_options req t) = None"
    "s = \<lparr>res = r,
        upstream = Some \<lparr>client = (if protocol t = ''https:'' then Https else Http),
                         request_options = outbound_options req t, sent = [],
                         ended = (req_method req \<noteq> ''POST''), destroyed = False\<rparr>,
        req_listening = (req_method req = ''POST''), ur_listening = False, uncaught = None\<rparr>"
    by blast
  moreover have "proxySSE new_URL request_error req r0 = s"
    by (simp add: proxySSE_def Inr)
  ultimately show ?thesis by (intro that) simp_all
qed

lemma proxySSE_catch_cors:
  \<open>proxySSE_catch message (new_response\<lparr>outHeaders := cors_headers\<rparr>) =
     idle_session
       \<lparr>outHeaders = cors_headers @ [(''Content-Type'', ''application/json'')],
        headersSent = True, statusCode = 500,
        body = [''{"error":"proxy error","message":''
                 @ quote (if message = [] then ''unknown'' else message) @ ''}''],
        finished = True\<rparr>\<close>
  by (simp add: proxySSE_catch_def stringify_error_message writeHead_def res_end_def
      respond_def idle_session_def new_response_def cors_headers_def or_string_def)

text \<open>Conversely, a target that resolves gives a session with an outbound request.\<close>

lemma proxySSE_valid_target:
  assumes "new_URL (url req) (Some (base_of req)) = Inr u"
    and "searchParams_get u ''url'' = Some target" and "target \<noteq> []"
    and "new_URL target None = Inr t"
    and "request_error (if protocol t = ''https:'' then Https else Http)
           (outbound_options req t) = None"
  shows "proxySSE new_URL request_error req new_response =
       \<lparr>res = new_response\<lparr>outHeaders := cors_headers\<rparr>,
        upstream = Some \<lparr>client = (if protocol t = ''https:'' then Https else Http),
                         request_options = outbound_options req t, sent = [],
                         ended = (req_method req \<noteq> ''POST''), destroyed = False\<rparr>,
        req_listening = (req_method req = ''POST''), ur_listening = False, uncaught = None\<rparr>"
  using assms
  by (simp add: proxySSE_def proxySSE_try_def cors_new_response Let_def upstream_end_def)

text \<open>
  The router hands a request to \<open>proxySSE\<close>, with a new response object, when its path
  starts with \<open>/sse\<close> and its method is neither OPTIONS nor HEAD.
\<close>

lemma server_sse:
  assumes "req_method req \<noteq> ''OPTIONS''" and "req_method req \<noteq> ''HEAD''"
    and "prefix ''/sse'' (url req)"
  shows "server new_URL request_error now req = proxySSE new_URL request_error req new_response"
proof -
  from assms(3) have "\<not> prefix ''/health'' (url req)"
    by (auto simp: prefix_def)
  with assms show ?thesis by (simp add: server_def)
qed

subsection \<open>Events\<close>

lemma run_Nil: "run s [] = s"
  by (simp add: run_def)

lemma run_Cons: "run s (ev # evs) = run (step s ev) evs"
  by (simp add: run_def)

lemma run_append: "run s (evs @ evs') = run (run s evs) evs'"
  by (simp add: run_def)

lemma run_snoc: "run s (evs @ [ev]) = step (run s evs) ev"
  by (simp add: run_def)

text \<open>What a step never touches.\<close>

lemma step_upstream_None: "upstream s = None \<Longrightarrow> step s ev = s"
  by (simp add: step_def)

lemma step_uncaught: "uncaught s \<noteq> None \<Longrightarrow> step s ev = s"
  by (simp add: step_def split: option.splits)

lemma step_inbound_res:
  "inbound ev \<Longrightarrow> res (step s ev) = res s \<and> ur_listening (step s ev) = ur_listening s
     \<and> uncaught (step s ev) = uncaught s \<and> req_listening (step s ev) = req_listening s"
  by (cases ev) (simp_all add: step_def split: option.splits)

lemma step_listening: "req_listening (step s ev) = req_listening s"
  by (cases ev)
     (simp_all add: step_def on_response_def on_upstream_error_def respond_fields Let_def
       split: option.splits sum.splits)

lemma uncaught_step_None: "uncaught (step s ev) = None \<Longrightarrow> uncaught s = None"
  using step_uncaught [of s ev] by (cases "uncaught s") auto

lemma uncaught_run_None: "uncaught (run s evs) = None \<Longrightarrow> uncaught s = None"
  by (induction evs arbitrary: s) (auto simp: run_Nil run_Cons dest: uncaught_step_None)

lemma step_upstream_Some:
  assumes "upstream s = Some up"
  shows "\<exists>up'. upstream (step s ev) = Some up' \<and> client up' = client up
     \<and> request_options up' = request_options up \<and> destroyed up' = destroyed up"
proof (cases "uncaught s")
  case (Some e)
  with assms show ?thesis by (simp add: step_uncaught)
next
  case None
  with assms show ?thesis
    by (cases ev)
       (simp_all add: step_def on_response_def on_upstream_error_def respond_fields Let_def
         upstream_write_def upstream_end_def split: sum.splits)
qed

text \<open>The outbound side sees the inbound events only.\<close>

lemma step_not_inbound_upstream: "\<not> inbound ev \<Longrightarrow> upstream (step s ev) = upstream s"
  by (cases ev)
     (simp_all add: step_def on_response_def on_upstream_error_def respond_fields Let_def
       split: option.splits sum.splits)

text \<open>The response head is written once, and nothing reaches the caller before it.\<close>

lemma respond_unsent:
  "\<not> headersSent (res (respond s (res_write c (res s)))) \<Longrightarrow>
     res (respond s (res_write c (res s))) = res s"
  "\<not> headersSent (res (respond s (res_end x (res s)))) \<Longrightarrow>
     res (respond s (res_end x (res s))) = res s"
  by (auto simp: respond_def res_write_def res_end_def split: if_splits option.splits)

lemma writeHead_sent: "writeHead st hs r = Inr r' \<Longrightarrow> headersSent r'"
  by (auto simp: writeHead_def split: if_splits)

lemma on_response_unsent:
  "\<not> headersSent (res (on_response st hs s)) \<Longrightarrow> res (on_response st hs s) = res s"
  by (cases "writeHead (fst (response_head st hs)) (snd (response_head st hs)) (res s)")
     (auto simp: on_response_def dest: writeHead_sent)

lemma on_upstream_error_unsent:
  "\<not> headersSent (res (on_upstream_error m s)) \<Longrightarrow> res (on_upstream_error m s) = res s"
  by (cases "writeHead 502 [(''Content-Type'', ''application/json'')] (res s)")
     (auto simp: on_upstream_error_def Let_def respond_def res_end_def
       dest: writeHead_sent split: if_splits)

lemma step_unsent: "\<not> headersSent (res (step s ev)) \<Longrightarrow> res (step s ev) = res s"
proof (cases "upstream s = None \<or> uncaught s \<noteq> None")
  case True
  then show ?thesis by (auto simp: step_upstream_None step_uncaught)
next
  case False
  then obtain up where "upstream s = Some up" "uncaught s = None" by auto
  then show "\<not> headersSent (res (step s ev)) \<Longrightarrow> res (step s ev) = res s"
    by (cases ev)
       (auto simp: step_def respond_unsent on_response_unsent on_upstream_error_unsent
         split: if_splits)
qed

lemma run_unsent: "\<not> headersSent (res (run s evs)) \<Longrightarrow> res (run s evs) = res s"
proof (induction evs rule: rev_induct)
  case Nil
  show ?case by (simp add: run_Nil)
next
  case (snoc ev evs)
  from snoc.prems have eq: "res (run s (evs @ [ev])) = res (run s evs)"
    by (simp add: run_snoc step_unsent)
  with snoc.prems have "\<not> headersSent (res (run s evs))" by simp
  with snoc.IH eq show ?case by simp
qed

text \<open>The body chunks reach the outbound request in order until the inbound end.\<close>

lemma step_upstream_idle: "\<not> req_listening s \<Longrightarrow> upstream (step s ev) = upstream s"
proof (cases "inbound ev")
  case True
  assume "\<not> req_listening s"
  with True show ?thesis
    by (cases ev) (simp_all add: step_def split: option.splits)
next
  case False
  then show ?thesis by (simp add: step_not_inbound_upstream)
qed

lemma run_upstream_idle: "\<not> req_listening s \<Longrightarrow> upstream (run s evs) = upstream s"
  by (induction evs arbitrary: s) (simp_all add: run_Nil run_Cons step_listening step_upstream_idle)

lemma step_forward:
  assumes "upstream s = Some up" and "req_listening s" and "uncaught s = None"
  shows "\<exists>up'. upstream (step s ev) = Some up'
     \<and> sent up' = (if ended up then sent up
                    else case ev of RequestData c \<Rightarrow> sent up @ [c] | _ \<Rightarrow> sent up)
     \<and> (ended up' \<longleftrightarrow> ended up \<or> ev = RequestEnd)"
  using assms
  by (cases ev)
     (simp_all add: step_def on_response_def on_upstream_error_def respond_fields Let_def
       upstream_write_def upstream_end_def split: sum.splits)

lemma run_forward:
  assumes "upstream s = Some up" and "req_listening s" and "uncaught (run s evs) = None"
  shows "\<exists>up'. upstream (run s evs) = Some up'
     \<and> sent up' = (if ended up then sent up else sent up @ forwarded evs)
     \<and> (ended up' \<longleftrightarrow> ended up \<or> RequestEnd \<in> set evs)"
  using assms
proof (induction evs arbitrary: s up)
  case Nil
  then show ?case by (simp add: run_Nil)
next
  case (Cons ev evs)
  from Cons.prems(3) have u': "uncaught (run (step s ev) evs) = None" by (simp add: run_Cons)
  then have "uncaught (step s ev) = None" by (rule uncaught_run_None)
  then have u: "uncaught s = None" by (rule uncaught_step_None)
  from step_forward [OF Cons.prems(1,2) u, of ev] obtain up1 where
    1: "upstream (step s ev) = Some up1"
       "sent up1 = (if ended up then sent up
                    else case ev of RequestData c \<Rightarrow> sent up @ [c] | _ \<Rightarrow> sent up)"
       "ended up1 \<longleftrightarrow> ended up \<or> ev = RequestEnd"
    by blast
  from Cons.prems(2) have l: "req_listening (step s ev)" by (simp add: step_listening)
  from Cons.IH [OF 1(1) l u'] obtain up' where
    2: "upstream (run (step s ev) evs) = Some up'"
       "sent up' = (if ended up1 then sent up1 else sent up1 @ forwarded evs)"
       "ended up' \<longleftrightarrow> ended up1 \<or> RequestEnd \<in> set evs"
    by blast
  from 1 2 have "sent up' = (if ended up then sent up else sent up @ forwarded (ev # evs))"
    by (cases ev) (simp_all split: if_splits)
  moreover from 1 2 have "ended up' \<longleftrightarrow> ended up \<or> RequestEnd \<in> set (ev # evs)"
    by auto
  ultimately show ?case using 2(1) by (simp add: run_Cons)
qed

text \<open>The session after \<open>proxySSE\<close>, and the two handlers that write the head.\<close>

lemma run_upstream_Some:
  assumes "upstream s = Some up"
  shows "\<exists>up'. upstream (run s evs) = Some up' \<and> client up' = client up
     \<and> request_options up' = request_options up \<and> destroyed up' = destroyed up"
  using assms
proof (induction evs arbitrary: s up)
  case Nil
  then show ?case by (simp add: run_Nil)
next
  case (Cons ev evs)
  from step_upstream_Some [OF Cons.prems, of ev] obtain up1 where
    1: "upstream (step s ev) = Some up1" "client up1 = client up"
       "request_options up1 = request_options up" "destroyed up1 = destroyed up"
    by blast
  from Cons.IH [OF 1(1)] 1 show ?case by (simp add: run_Cons)
qed

lemma proxySSE_res:
  assumes "upstream (proxySSE new_URL request_error req new_response) = Some up"
  shows "res (proxySSE new_URL request_error req new_response) =
           new_response\<lparr>outHeaders := cors_headers\<rparr>"
    and "uncaught (proxySSE new_URL request_error req new_response) = None"
    and "ur_listening (proxySSE new_URL request_error req new_response) = False"
proof -
  from assms obtain r t where
    "cors new_response = Inr r"
    "proxySSE new_URL request_error req new_response =
       \<lparr>res = r,
        upstream = Some \<lparr>client = (if protocol t = ''https:'' then Https else Http),
                         request_options = outbound_options req t, sent = [],
                         ended = (req_method req \<noteq> ''POST''), destroyed = False\<rparr>,
        req_listening = (req_method req = ''POST''), ur_listening = False, uncaught = None\<rparr>"
    by (elim proxySSE_upstream) simp
  then show "res (proxySSE new_URL request_error req new_response) =
           new_response\<lparr>outHeaders := cors_headers\<rparr>"
    and "uncaught (proxySSE new_URL request_error req new_response) = None"
    and "ur_listening (proxySSE new_URL request_error req new_response) = False"
    by (simp_all add: cors_new_response)
qed

lemma on_upstream_error_unsent_cors:
  assumes "res s = new_response\<lparr>outHeaders := cors_headers\<rparr>"
  shows \<open>res (on_upstream_error message s) =
     \<lparr>outHeaders = cors_headers @ [(''Content-Type'', ''application/json'')],
      headersSent = True, statusCode = 502,
      body = [''{"error":"bad gateway","message":'' @ quote message @ ''}''],
      finished = True\<rparr>\<close>
  using assms
  by (simp add: on_upstream_error_def stringify_error_message writeHead_def res_end_def
      respond_def new_response_def cors_headers_def)

lemma writeHead_ok:
  "\<not> headersSent r \<Longrightarrow> 100 \<le> st \<Longrightarrow> st \<le> 999 \<Longrightarrow>
   writeHead st hs r =
     Inr (r\<lparr>outHeaders := fold (\<lambda>(name, v). AList.update name v) hs (outHeaders r),
             headersSent := True, statusCode := st\<rparr>)"
  by (simp add: writeHead_def)

lemma on_response_ok:
  assumes "\<not> headersSent (res s)" and "100 \<le> or_number st 200" and "or_number st 200 \<le> 999"
  shows "on_response st hs s =
     s\<lparr>res := (res s)\<lparr>outHeaders :=
                 fold (\<lambda>(name, v). AList.update name v) (snd (response_head st hs))
                   (outHeaders (res s)),
               headersSent := True, statusCode := or_number st 200\<rparr>,
       ur_listening := True\<rparr>"
proof -
  have "fst (response_head st hs) = or_number st 200"
    by (simp add: response_head_def Let_def)
  with assms show ?thesis
    by (simp add: on_response_def writeHead_ok)
qed

text \<open>The caller's response depends on the events of the outbound side only.\<close>

lemma step_view:
  assumes "upstream s = Some up" and "upstream s' = Some up'"
    and "res s = res s'" and "ur_listening s = ur_listening s'" and "uncaught s = uncaught s'"
    and "\<not> inbound ev"
  shows "res (step s ev) = res (step s' ev) \<and> ur_listening (step s ev) = ur_listening (step s' ev)
     \<and> uncaught (step s ev) = uncaught (step s' ev)"
  using assms
  by (cases ev)
     (simp_all add: step_def on_response_def on_upstream_error_def respond_def Let_def
       split: sum.splits)

lemma run_filter:
  assumes "upstream s = Some up" and "upstream s' = Some up'"
    and "res s = res s'" and "ur_listening s = ur_listening s'" and "uncaught s = uncaught s'"
  shows "res (run s evs) = res (run s' (filter (\<lambda>ev. \<not> inbound ev) evs))"
  using assms
proof (induction evs arbitrary: s s' up up')
  case Nil
  then show ?case by (simp add: run_Nil)
next
  case (Cons ev evs)
  from step_upstream_Some [OF Cons.prems(1), of ev] obtain up1 where
    1: "upstream (step s ev) = Some up1" by blast
  show ?case
  proof (cases "inbound ev")
    case True
    with Cons.prems have "res (step s ev) = res s'" "ur_listening (step s ev) = ur_listening s'"
      "uncaught (step s ev) = uncaught s'"
      by (simp_all add: step_inbound_res)
    from Cons.IH [OF 1 Cons.prems(2) this] True show ?thesis by (simp add: run_Cons)
  next
    case False
    from step_upstream_Some [OF Cons.prems(2), of ev] obtain up2 where
      2: "upstream (step s' ev) = Some up2" by blast
    from step_view [OF Cons.prems False]
    have "res (step s ev) = res (step s' ev)" "ur_listening (step s ev) = ur_listening (step s' ev)"
      "uncaught (step s ev) = uncaught (step s' ev)" by simp_all
    from Cons.IH [OF 1 2 this] False show ?thesis by (simp add: run_Cons)
  qed
qed

lemma run_response_data:
  assumes "upstream s = Some up" and "uncaught s = None" and "ur_listening s"
    and "headersSent (res s)" and "\<not> finished (res s)"
  shows "run s (map ResponseData chunks) = s\<lparr>res := (res s)\<lparr>body := body (res s) @ chunks\<rparr>\<rparr>"
  using assms
proof (induction chunks arbitrary: s)
  case Nil
  then show ?case by (simp add: run_Nil)
next
  case (Cons c chunks)
  let ?s1 = "s\<lparr>res := (res s)\<lparr>body := body (res s) @ [c]\<rparr>\<rparr>"
  from Cons.prems have 1: "step s (ResponseData c) = ?s1"
    by (simp add: step_def res_write_def respond_def)
  from Cons.prems have "run ?s1 (map ResponseData chunks) =
      ?s1\<lparr>res := (res ?s1)\<lparr>body := body (res ?s1) @ chunks\<rparr>\<rparr>"
    by (intro Cons.IH) simp_all
  with 1 show ?case by (simp add: run_Cons)
qed

subsection \<open>The example requests\<close>

lemma proxySSE_example_get:
  "proxySSE example_URL example_check example_get new_response =
   \<lparr>res = \<lparr>outHeaders = cors_headers, headersSent = False, statusCode = 200,
            body = [], finished = False\<rparr>,
    upstream = Some \<lparr>client = Http,
       request_options = echo_options ''GET'' ''*/*'' ''application/json'',
       sent = [], ended = True, destroyed = False\<rparr>,
    req_listening = False, ur_listening = False, uncaught = None\<rparr>"
proof -
  have "proxySSE example_URL example_check example_get new_response =
   \<lparr>res = new_response\<lparr>outHeaders := cors_headers\<rparr>,
    upstream = Some \<lparr>client = Http,
       request_options = echo_options ''GET'' ''*/*'' ''application/json'',
       sent = [], ended = True, destroyed = False\<rparr>,
    req_listening = False, ur_listening = False, uncaught = None\<rparr>"
    by (simp add: proxySSE_def proxySSE_try_def cors_new_response example_request_def
        example_URL_def example_base_def example_query_def base_of_def searchParams_get_def
        example_check_def outbound_options_def outbound_headers_def echo_options_def
        upstream_end_def or_string_def example_get_def)
  then show ?thesis by (simp add: new_response_def)
qed

lemma proxySSE_example_post:
  "proxySSE example_URL example_check example_post new_response =
   \<lparr>res = \<lparr>outHeaders = cors_headers, headersSent = False, statusCode = 200,
            body = [], finished = False\<rparr>,
    upstream = Some \<lparr>client = Http,
       request_options = echo_options ''POST'' ''text/event-stream'' ''text/plain'',
       sent = [], ended = False, destroyed = False\<rparr>,
    req_listening = True, ur_listening = False, uncaught = None\<rparr>"
proof -
  have "proxySSE example_URL example_check example_post new_response =
   \<lparr>res = new_response\<lparr>outHeaders := cors_headers\<rparr>,
    upstream = Some \<lparr>client = Http,
       request_options = echo_options ''POST'' ''text/event-stream'' ''text/plain'',
       sent = [], ended = False, destroyed = False\<rparr>,
    req_listening = True, ur_listening = False, uncaught = None\<rparr>"
    by (simp add: proxySSE_def proxySSE_try_def cors_new_response example_request_def
        example_URL_def example_base_def example_query_def base_of_def searchParams_get_def
        example_check_def outbound_options_def outbound_headers_def echo_options_def
        upstream_end_def or_string_def example_post_def)
  then show ?thesis by (simp add: new_response_def)
qed

lemma proxySSE_example_get_other:
  "proxySSE example_URL example_check example_get_other new_response =
     proxySSE example_URL example_check example_get new_response"
  by (simp add: proxySSE_def proxySSE_try_def cors_new_response example_request_def
      example_URL_def example_base_def example_query_def base_of_def searchParams_get_def
      example_check_def outbound_options_def outbound_headers_def
      upstream_end_def or_string_def example_get_def example_get_other_def)

lemma example_stream_eq:
  "example_stream =
     \<lparr>res = \<lparr>outHeaders = cors_headers @
                [(''Content-Type'', ''text/event-stream''), (''Cache-Control'', ''no-cache''),
                 (''Connection'', ''keep-alive'')],
              headersSent = True, statusCode = 200, body = [''data: tick''], finished = False\<rparr>,
      upstream = Some \<lparr>client = Http,
         request_options = echo_options ''GET'' ''*/*'' ''application/json'',
         sent = [], ended = True, destroyed = False\<rparr>,
      req_listening = False, ur_listening = True, uncaught = None\<rparr>"
  by (simp add: example_stream_def proxySSE_example_get run_Cons run_Nil step_def on_response_def
      response_head_def writeHead_def or_number_def or_string_def res_write_def respond_def
      cors_headers_def)

section \<open>The claims\<close>

subsection \<open>Target resolution\<close>

text \<open>
  C6. The claim covers every request that \<open>proxySSE\<close> handles. The \<open>url\<close> parameter is
  read from \<open>new URL(req.url, base)\<close>, whose base is built from the \<open>Host\<close> header
  (line 23); when that base does not parse, the constructor throws before the parameter
  is looked at, and the \<open>catch\<close> block answers. \<open>GET /sse\<close> with the \<open>Host\<close> header \<open>[\<close>
  has no \<open>url\<close> parameter, and its status is 500 and not 400.
\<close>

theorem missing_target_bad_host_500:
  \<open>url (example_request ''GET'' ''/sse'' [(''host'', ''['')]) = ''/sse''
   \<and> example_query ''/sse'' = Some ([], [])
   \<and> base_of (example_request ''GET'' ''/sse'' [(''host'', ''['')]) = ''http://[''
   \<and> example_URL ''/sse'' (Some ''http://['') = Inl ''Invalid URL''
   \<and> res (proxySSE example_URL example_check
         (example_request ''GET'' ''/sse'' [(''host'', ''['')]) new_response) =
       \<lparr>outHeaders = cors_headers @ [(''Content-Type'', ''application/json'')],
        headersSent = True, statusCode = 500,
        body = [''{"error":"proxy error","message":"Invalid URL"}''],
        finished = True\<rparr>
   \<and> statusCode (res (proxySSE example_URL example_check
         (example_request ''GET'' ''/sse'' [(''host'', ''['')]) new_response)) \<noteq> 400\<close>
proof -
  let ?req = "example_request ''GET'' ''/sse'' [(''host'', ''['')]"
  have b: "base_of ?req = ''http://[''"
    by (simp add: base_of_def example_request_def)
  have u: "url ?req = ''/sse''"
    by (simp add: example_request_def)
  have e: "example_URL ''/sse'' (Some ''http://['') = Inl ''Invalid URL''"
    by (simp add: example_URL_def)
  have q: "example_query ''/sse'' = Some ([], [])"
    by (simp add: example_query_def)
  from b u e have "proxySSE_try example_URL example_check ?req new_response =
      Inl (''Invalid URL'', new_response\<lparr>outHeaders := cors_headers\<rparr>)"
    by (simp add: proxySSE_try_def cors_new_response)
  then have "proxySSE example_URL example_check ?req new_response =
      proxySSE_catch ''Invalid URL'' (new_response\<lparr>outHeaders := cors_headers\<rparr>)"
    by (simp add: proxySSE_def)
  then have \<open>res (proxySSE example_URL example_check ?req new_response) =
       \<lparr>outHeaders = cors_headers @ [(''Content-Type'', ''application/json'')],
        headersSent = True, statusCode = 500,
        body = [''{"error":"proxy error","message":"Invalid URL"}''],
        finished = True\<rparr>\<close>
    by (simp add: proxySSE_catch_cors idle_session_def quote_def escape_def)
  with b u e q show ?thesis by simp
qed

text \<open>
  C6 as amended: a request handled by \<open>proxySSE\<close> whose own URL parses against its \<open>Host\<close>
  header and whose \<open>url\<close> query parameter is absent or empty is answered with status 400
  and the body \<open>{"error":"missing url param"}\<close>, and no outbound request is created. The
  response also carries the three CORS headers and the JSON content type, and it is
  ended.
\<close>

theorem missing_target_400:
  assumes "new_URL (url req) (Some (base_of req)) = Inr u"
    and "searchParams_get u ''url'' = None \<or> searchParams_get u ''url'' = Some []"
  shows \<open>proxySSE new_URL request_error req new_response =
     idle_session
       \<lparr>outHeaders = cors_headers @ [(''Content-Type'', ''application/json'')],
        headersSent = True, statusCode = 400,
        body = [''{"error":"missing url param"}''], finished = True\<rparr>
     \<and> upstream (proxySSE new_URL request_error req new_response) = None\<close>
  using assms
  by (auto simp: proxySSE_def proxySSE_try_def cors_new_response missing_url_param_cors
      idle_session_def)

text \<open>An instance: \<open>GET /sse\<close> without a query.\<close>

theorem missing_target_400_witness:
  \<open>example_URL ''/sse'' (Some ''http://localhost:6277'') =
      Inr \<lparr>protocol = ''http:'', hostname = ''localhost'', port = ''6277'',
           pathname = ''/sse'', search = [], searchParams = []\<rparr>
   \<and> statusCode (res (proxySSE example_URL example_check
         (example_request ''GET'' ''/sse'' [(''host'', ''localhost:6277'')]) new_response)) = 400
   \<and> body (res (proxySSE example_URL example_check
         (example_request ''GET'' ''/sse'' [(''host'', ''localhost:6277'')]) new_response))
       = [''{"error":"missing url param"}'']
   \<and> upstream (proxySSE example_URL example_check
         (example_request ''GET'' ''/sse'' [(''host'', ''localhost:6277'')]) new_response) = None\<close>
proof -
  let ?req = "example_request ''GET'' ''/sse'' [(''host'', ''localhost:6277'')]"
  let ?u = "\<lparr>protocol = ''http:'', hostname = ''localhost'', port = ''6277'',
           pathname = ''/sse'', search = [], searchParams = []\<rparr>"
  have h1: "example_URL (url ?req) (Some (base_of ?req)) = Inr ?u"
    by (simp add: example_URL_def example_base_def example_query_def example_request_def
        base_of_def)
  have h2: "searchParams_get ?u ''url'' = None \<or> searchParams_get ?u ''url'' = Some []"
    by (simp add: searchParams_get_def)
  have e: "example_URL ''/sse'' (Some ''http://localhost:6277'') = Inr ?u"
    by (simp add: example_URL_def example_base_def example_query_def)
  from missing_target_400 [where new_URL = example_URL and req = "?req" and u = "?u"
      and request_error = example_check] h1 h2 e
  show ?thesis
    by (simp add: idle_session_def)
qed

text \<open>
  C2. The claim says that a target that is present and not empty but does not parse gets
  status 400. The source has no check of its own for that: \<open>new URL(target)\<close> throws, the
  \<open>catch\<close> block answers, and its status is 500 with the error \<open>proxy error\<close>. At the
  target \<open>not a url\<close> the status is 500 and not 400.
\<close>

theorem invalid_target_not_400:
  \<open>example_URL ''/sse?url=not%20a%20url'' (Some ''http://localhost:6277'') =
      Inr \<lparr>protocol = ''http:'', hostname = ''localhost'', port = ''6277'',
           pathname = ''/sse'', search = ''?url=not%20a%20url'',
           searchParams = [(''url'', ''not a url'')]\<rparr>
   \<and> example_URL ''not a url'' None = Inl ''Invalid URL''
   \<and> statusCode (res (proxySSE example_URL example_check
         (example_request ''GET'' ''/sse?url=not%20a%20url'' [(''host'', ''localhost:6277'')])
         new_response)) = 500
   \<and> statusCode (res (proxySSE example_URL example_check
         (example_request ''GET'' ''/sse?url=not%20a%20url'' [(''host'', ''localhost:6277'')])
         new_response)) \<noteq> 400\<close>
  by (simp add: proxySSE_def proxySSE_try_def cors_def setHeader_def proxySSE_catch_def
      writeHead_def res_end_def respond_def new_response_def example_request_def
      example_URL_def example_base_def example_query_def base_of_def searchParams_get_def
      idle_session_def)

text \<open>
  C2 as amended: a target that is present and not empty but does not parse is answered
  with status 500 and the body \<open>{"error":"proxy error","message":m}\<close>, where \<open>m\<close> is the
  message of the constructor's error (\<open>unknown\<close> when that is empty), and no outbound
  request is created.
\<close>

theorem invalid_target_500:
  assumes "new_URL (url req) (Some (base_of req)) = Inr u"
    and "searchParams_get u ''url'' = Some target" and "target \<noteq> []"
    and "new_URL target None = Inl message"
  shows \<open>proxySSE new_URL request_error req new_response =
     idle_session
       \<lparr>outHeaders = cors_headers @ [(''Content-Type'', ''application/json'')],
        headersSent = True, statusCode = 500,
        body = [''{"error":"proxy error","message":''
                 @ quote (if message = [] then ''unknown'' else message) @ ''}''],
        finished = True\<rparr>
     \<and> upstream (proxySSE new_URL request_error req new_response) = None\<close>
proof -
  from assms have "proxySSE_try new_URL request_error req new_response =
      Inl (message, new_response\<lparr>outHeaders := cors_headers\<rparr>)"
    by (simp add: proxySSE_try_def cors_new_response)
  then have "proxySSE new_URL request_error req new_response =
      proxySSE_catch message (new_response\<lparr>outHeaders := cors_headers\<rparr>)"
    by (simp add: proxySSE_def)
  then show ?thesis
    by (simp add: proxySSE_catch_cors idle_session_def)
qed

text \<open>An instance: the target \<open>not a url\<close>, with the message of the constructor in the body.\<close>

theorem invalid_target_500_witness:
  \<open>example_URL ''/sse?url=not%20a%20url'' (Some ''http://localhost:6277'') =
      Inr \<lparr>protocol = ''http:'', hostname = ''localhost'', port = ''6277'',
           pathname = ''/sse'', search = ''?url=not%20a%20url'',
           searchParams = [(''url'', ''not a url'')]\<rparr>
   \<and> example_URL ''not a url'' None = Inl ''Invalid URL''
   \<and> res (proxySSE example_URL example_check
         (example_request ''GET'' ''/sse?url=not%20a%20url'' [(''host'', ''localhost:6277'')])
         new_response) =
       \<lparr>outHeaders = cors_headers @ [(''Content-Type'', ''application/json'')],
        headersSent = True, statusCode = 500,
        body = [''{"error":"proxy error","message":"Invalid URL"}''],
        finished = True\<rparr>\<close>
proof -
  let ?req = "example_request ''GET'' ''/sse?url=not%20a%20url'' [(''host'', ''localhost:6277'')]"
  let ?u = "\<lparr>protocol = ''http:'', hostname = ''localhost'', port = ''6277'',
           pathname = ''/sse'', search = ''?url=not%20a%20url'',
           searchParams = [(''url'', ''not a url'')]\<rparr>"
  have h1: "example_URL (url ?req) (Some (base_of ?req)) = Inr ?u"
    by (simp add: example_URL_def example_base_def example_query_def example_request_def
        base_of_def)
  have h2: "searchParams_get ?u ''url'' = Some ''not a url''"
    by (simp add: searchParams_get_def)
  have h3: "''not a url'' \<noteq> []" by simp
  have h4: "example_URL ''not a url'' None = Inl ''Invalid URL''"
    by (simp add: example_URL_def)
  have e: "example_URL ''/sse?url=not%20a%20url'' (Some ''http://localhost:6277'') = Inr ?u"
    by (simp add: example_URL_def example_base_def example_query_def)
  from invalid_target_500 [where new_URL = example_URL and req = "?req" and u = "?u"
      and target = "''not a url''" and message = "''Invalid URL''"
      and request_error = example_check] h1 h2 h3 h4 e
  show ?thesis
    by (simp add: idle_session_def quote_def escape_def)
qed

subsection \<open>The outbound request\<close>

text \<open>
  C4. Whenever \<open>proxySSE\<close> creates an outbound request, its header set is exactly the five
  headers of the literal at line 38-44, in that order: \<open>Accept\<close> and \<open>Content-Type\<close> take
  the inbound value, and the default when the inbound header is absent or empty (the
  reading of \<open>||\<close>); the other three are constants. No other inbound header is copied.
\<close>

theorem outbound_headers_allow_list:
  assumes "upstream (proxySSE new_URL request_error req r0) = Some up"
  shows "opt_headers (request_options up) =
     [(''Accept'', case headers req ''accept'' of
                     None \<Rightarrow> ''text/event-stream''
                   | Some v \<Rightarrow> if v = [] then ''text/event-stream'' else v),
      (''Content-Type'', case headers req ''content-type'' of
                     None \<Rightarrow> ''application/json''
                   | Some v \<Rightarrow> if v = [] then ''application/json'' else v),
      (''Cache-Control'', ''no-cache''),
      (''Connection'', ''keep-alive''),
      (''User-Agent'', ''mcp-inspector-local-proxy'')]"
proof -
  from assms obtain t where
    "upstream (proxySSE new_URL request_error req r0) =
       Some \<lparr>client = (if protocol t = ''https:'' then Https else Http),
             request_options = outbound_options req t, sent = [],
             ended = (req_method req \<noteq> ''POST''), destroyed = False\<rparr>"
    by (elim proxySSE_upstream) simp
  with assms have "request_options up = outbound_options req t" by auto
  then show ?thesis
    by (simp add: outbound_options_def outbound_headers_def or_string_def)
qed

text \<open>An instance: the GET of the examples, whose \<open>Authorization\<close> and \<open>Cookie\<close> do not go out.\<close>

theorem outbound_headers_allow_list_witness:
  "upstream (proxySSE example_URL example_check example_get new_response) =
     Some \<lparr>client = Http, request_options = echo_options ''GET'' ''*/*'' ''application/json'',
           sent = [], ended = True, destroyed = False\<rparr>
   \<and> opt_headers (echo_options ''GET'' ''*/*'' ''application/json'') =
     [(''Accept'', ''*/*''), (''Content-Type'', ''application/json''),
      (''Cache-Control'', ''no-cache''), (''Connection'', ''keep-alive''),
      (''User-Agent'', ''mcp-inspector-local-proxy'')]"
proof -
  have h: "upstream (proxySSE example_URL example_check example_get new_response) =
     Some \<lparr>client = Http, request_options = echo_options ''GET'' ''*/*'' ''application/json'',
           sent = [], ended = True, destroyed = False\<rparr>"
    by (simp add: proxySSE_example_get)
  from outbound_headers_allow_list [OF h] h show ?thesis
    by (simp add: example_get_def example_request_def)
qed

text \<open>
  C10. Two requests with the same method and request URL whose \<open>Accept\<close> and
  \<open>Content-Type\<close> headers agree produce the same outbound request, whatever their other
  headers are, and the names of the outbound headers are the five of the allow-list, so
  \<open>Authorization\<close> is not among them. The \<open>Host\<close> header is one of the other headers; it
  enters the base of \<open>new URL(req.url, base)\<close> only, and the fifth hypothesis says that the
  \<open>url\<close> parameter read from the request URL does not depend on that base.
\<close>

theorem outbound_request_ignores_other_headers:
  assumes "req_method r1 = req_method r2" and "url r1 = url r2"
    and "headers r1 ''accept'' = headers r2 ''accept''"
    and "headers r1 ''content-type'' = headers r2 ''content-type''"
    and "\<And>u1 u2. new_URL (url r1) (Some (base_of r1)) = Inr u1 \<Longrightarrow>
                   new_URL (url r2) (Some (base_of r2)) = Inr u2 \<Longrightarrow>
                   searchParams_get u1 ''url'' = searchParams_get u2 ''url''"
    and "upstream (proxySSE new_URL request_error r1 res1) = Some up1"
    and "upstream (proxySSE new_URL request_error r2 res2) = Some up2"
  shows "up1 = up2
     \<and> map fst (opt_headers (request_options up1)) =
         [''Accept'', ''Content-Type'', ''Cache-Control'', ''Connection'', ''User-Agent'']"
proof -
  from assms(6) obtain u1 g1 t1 where
    1: "new_URL (url r1) (Some (base_of r1)) = Inr u1"
       "searchParams_get u1 ''url'' = Some g1" "new_URL g1 None = Inr t1"
       "upstream (proxySSE new_URL request_error r1 res1) =
          Some \<lparr>client = (if protocol t1 = ''https:'' then Https else Http),
             request_options = outbound_options r1 t1, sent = [],
             ended = (req_method r1 \<noteq> ''POST''), destroyed = False\<rparr>"
    by (elim proxySSE_upstream) simp
  from assms(7) obtain u2 g2 t2 where
    2: "new_URL (url r2) (Some (base_of r2)) = Inr u2"
       "searchParams_get u2 ''url'' = Some g2" "new_URL g2 None = Inr t2"
       "upstream (proxySSE new_URL request_error r2 res2) =
          Some \<lparr>client = (if protocol t2 = ''https:'' then Https else Http),
             request_options = outbound_options r2 t2, sent = [],
             ended = (req_method r2 \<noteq> ''POST''), destroyed = False\<rparr>"
    by (elim proxySSE_upstream) simp
  from assms(5) [OF 1(1) 2(1)] 1(2) 2(2) have "g1 = g2" by simp
  with 1(3) 2(3) have t: "t1 = t2" by simp
  from assms(1,3,4) have "outbound_options r1 t1 = outbound_options r2 t1"
    by (simp add: outbound_options_def outbound_headers_def)
  with t assms(1,6,7) 1(4) 2(4) have "up1 = up2" by simp
  moreover from assms(6) 1(4) have "request_options up1 = outbound_options r1 t1" by auto
  then have "map fst (opt_headers (request_options up1)) =
         [''Accept'', ''Content-Type'', ''Cache-Control'', ''Connection'', ''User-Agent'']"
    by (simp add: outbound_options_def outbound_headers_def)
  ultimately show ?thesis by simp
qed

text \<open>An instance: the two GETs of the examples, which differ in \<open>Host\<close>, \<open>Authorization\<close>,
  \<open>Cookie\<close> and \<open>Origin\<close>.\<close>

theorem outbound_request_ignores_other_headers_witness:
  "headers example_get ''authorization'' \<noteq> headers example_get_other ''authorization''
   \<and> headers example_get ''host'' \<noteq> headers example_get_other ''host''
   \<and> upstream (proxySSE example_URL example_check example_get new_response) =
       Some \<lparr>client = Http, request_options = echo_options ''GET'' ''*/*'' ''application/json'',
             sent = [], ended = True, destroyed = False\<rparr>
   \<and> upstream (proxySSE example_URL example_check example_get_other new_response) =
       Some \<lparr>client = Http, request_options = echo_options ''GET'' ''*/*'' ''application/json'',
             sent = [], ended = True, destroyed = False\<rparr>
   \<and> map fst (opt_headers (echo_options ''GET'' ''*/*'' ''application/json'')) =
         [''Accept'', ''Content-Type'', ''Cache-Control'', ''Connection'', ''User-Agent'']"
proof -
  let ?up = "\<lparr>client = Http, request_options = echo_options ''GET'' ''*/*'' ''application/json'',
             sent = [], ended = True, destroyed = False\<rparr>"
  have h1: "req_method example_get = req_method example_get_other"
    and h2: "url example_get = url example_get_other"
    and h3: "headers example_get ''accept'' = headers example_get_other ''accept''"
    and h4: "headers example_get ''content-type'' = headers example_get_other ''content-type''"
    by (simp_all add: example_get_def example_get_other_def example_request_def)
  have h5: "\<And>u1 u2. example_URL (url example_get) (Some (base_of example_get)) = Inr u1 \<Longrightarrow>
                   example_URL (url example_get_other) (Some (base_of example_get_other)) = Inr u2 \<Longrightarrow>
                   searchParams_get u1 ''url'' = searchParams_get u2 ''url''"
    by (auto simp: example_get_def example_get_other_def example_request_def example_URL_def
        example_base_def example_query_def base_of_def searchParams_get_def)
  have h6: "upstream (proxySSE example_URL example_check example_get new_response) = Some ?up"
    by (simp add: proxySSE_example_get)
  have h7: "upstream (proxySSE example_URL example_check example_get_other new_response) = Some ?up"
    by (simp add: proxySSE_example_get_other proxySSE_example_get)
  have d: "headers example_get ''authorization'' \<noteq> headers example_get_other ''authorization''"
     "headers example_get ''host'' \<noteq> headers example_get_other ''host''"
    by (simp_all add: example_get_def example_get_other_def example_request_def)
  from outbound_request_ignores_other_headers [OF h1 h2 h3 h4 h5 h6 h7] h6 h7 d
  show ?thesis by simp
qed

text \<open>
  C5. After \<open>proxySSE\<close> has created the outbound request, and over any sequence of events
  that the process survives: for a POST, the chunks written to the outbound request are
  exactly the chunks of the inbound \<open>data\<close> events so far, in their order, and the
  outbound request is finalised if and only if the inbound \<open>end\<close> has arrived; for any
  other method nothing is ever written and the request is finalised from the start (the
  sequence may be empty). Since the statement holds for every prefix of the events, each
  chunk is handed over when its event arrives.
\<close>

theorem request_body_forwarding:
  assumes "upstream (proxySSE new_URL request_error req r0) = Some up0"
    and "uncaught (run (proxySSE new_URL request_error req r0) evs) = None"
  shows "\<exists>up. upstream (run (proxySSE new_URL request_error req r0) evs) = Some up
     \<and> (if req_method req = ''POST''
        then sent up = forwarded evs \<and> (ended up \<longleftrightarrow> RequestEnd \<in> set evs)
        else sent up = [] \<and> ended up)"
proof -
  let ?s0 = "proxySSE new_URL request_error req r0"
  from assms(1) obtain r t where
    "?s0 = \<lparr>res = r,
        upstream = Some \<lparr>client = (if protocol t = ''https:'' then Https else Http),
                         request_options = outbound_options req t, sent = [],
                         ended = (req_method req \<noteq> ''POST''), destroyed = False\<rparr>,
        req_listening = (req_method req = ''POST''), ur_listening = False, uncaught = None\<rparr>"
    by (elim proxySSE_upstream) simp
  with assms(1) have
    s0: "sent up0 = []" "ended up0 \<longleftrightarrow> req_method req \<noteq> ''POST''"
        "req_listening ?s0 \<longleftrightarrow> req_method req = ''POST''"
    by auto
  show ?thesis
  proof (cases "req_method req = ''POST''")
    case True
    with s0 have "req_listening ?s0" by simp
    from run_forward [OF assms(1) this assms(2)] s0 True show ?thesis by auto
  next
    case False
    with s0 have "\<not> req_listening ?s0" by simp
    then have "upstream (run ?s0 evs) = Some up0"
      using assms(1) by (simp add: run_upstream_idle)
    with s0 False show ?thesis by simp
  qed
qed

text \<open>An instance: a POST body in two chunks, with the upstream head arriving between them.\<close>

theorem request_body_forwarding_witness:
  "upstream (proxySSE example_URL example_check example_post new_response) =
      Some \<lparr>client = Http,
         request_options = echo_options ''POST'' ''text/event-stream'' ''text/plain'',
         sent = [], ended = False, destroyed = False\<rparr>
   \<and> uncaught (run (proxySSE example_URL example_check example_post new_response)
         [RequestData ''pi'', UpstreamResponse (Some 200) echo_headers, RequestData ''ng'',
          RequestEnd]) = None
   \<and> (\<exists>up. upstream (run (proxySSE example_URL example_check example_post new_response)
         [RequestData ''pi'', UpstreamResponse (Some 200) echo_headers, RequestData ''ng'',
          RequestEnd]) = Some up
        \<and> sent up = [''pi'', ''ng''] \<and> ended up)"
proof -
  let ?s0 = "proxySSE example_URL example_check example_post new_response"
  let ?evs = "[RequestData ''pi'', UpstreamResponse (Some 200) echo_headers, RequestData ''ng'',
          RequestEnd]"
  have h1: "upstream ?s0 = Some \<lparr>client = Http,
         request_options = echo_options ''POST'' ''text/event-stream'' ''text/plain'',
         sent = [], ended = False, destroyed = False\<rparr>"
    by (simp add: proxySSE_example_post)
  have h2: "uncaught (run ?s0 ?evs) = None"
    by (simp add: proxySSE_example_post run_Cons run_Nil step_def
        on_response_def response_head_def writeHead_def or_number_def upstream_write_def
        upstream_end_def)
  have m: "req_method example_post = ''POST''"
    by (simp add: example_post_def example_request_def)
  from request_body_forwarding [OF h1 h2] h1 h2 m show ?thesis by simp
qed

subsection \<open>The response to the caller\<close>

text \<open>
  C1. The claim covers every upstream head that is received. The status of the head goes
  to \<open>res.writeHead\<close> as it is (line 49), and \<open>writeHead\<close> throws on a status outside
  100..999; the callback has no \<open>try\<close>. For an upstream whose status line reads 099 the
  status is not passed on: no head is sent to the caller, and the exception is uncaught.
\<close>

theorem response_head_status_99:
  "upstream (proxySSE example_URL example_check example_get new_response) =
      Some \<lparr>client = Http, request_options = echo_options ''GET'' ''*/*'' ''application/json'',
           sent = [], ended = True, destroyed = False\<rparr>
   \<and> \<not> headersSent (res (step (proxySSE example_URL example_check example_get new_response)
         (UpstreamResponse (Some 99) echo_headers)))
   \<and> uncaught (step (proxySSE example_URL example_check example_get new_response)
         (UpstreamResponse (Some 99) echo_headers)) = Some ''Invalid status code: 99''"
  by (simp add: proxySSE_example_get step_def on_response_def response_head_def writeHead_def
      or_number_def number_to_string.simps hexdigit_def Let_def)

text \<open>
  C1 as amended: when the response callback runs on a session whose head has not been
  sent, with an upstream status that is not supplied (undefined or 0) or lies in
  100..999, the head sent to the caller is: the upstream status, or 200 when none is
  supplied; \<open>Content-Type\<close> exactly \<open>text/event-stream\<close> when the upstream content type
  contains that substring, else the upstream content type, else \<open>application/json\<close> when
  the upstream gives none (absent or empty); \<open>Cache-Control: no-cache\<close>,
  \<open>Connection: keep-alive\<close> and \<open>Access-Control-Allow-Origin: *\<close> in every case.
\<close>

theorem response_head_rule:
  assumes "upstream s = Some up" and "uncaught s = None" and "\<not> headersSent (res s)"
    and "st = None \<or> st = Some 0 \<or> (\<exists>n. st = Some n \<and> 100 \<le> n \<and> n \<le> 999)"
  shows "headersSent (res (step s (UpstreamResponse st hs)))
     \<and> statusCode (res (step s (UpstreamResponse st hs))) =
         (case st of None \<Rightarrow> 200 | Some n \<Rightarrow> if n = 0 then 200 else n)
     \<and> map_of (outHeaders (res (step s (UpstreamResponse st hs)))) ''Content-Type'' =
         Some (case hs ''content-type'' of
                 None \<Rightarrow> ''application/json''
               | Some v \<Rightarrow>
                   if (\<exists>p q. v = p @ ''text/event-stream'' @ q) then ''text/event-stream''
                   else if v = [] then ''application/json'' else v)
     \<and> map_of (outHeaders (res (step s (UpstreamResponse st hs)))) ''Cache-Control'' =
         Some ''no-cache''
     \<and> map_of (outHeaders (res (step s (UpstreamResponse st hs)))) ''Connection'' =
         Some ''keep-alive''
     \<and> map_of (outHeaders (res (step s (UpstreamResponse st hs))))
           ''Access-Control-Allow-Origin'' = Some ''*''"
proof -
  from assms(4) have range: "100 \<le> or_number st 200" "or_number st 200 \<le> 999"
    by (auto simp: or_number_def)
  from assms(1,2) have "step s (UpstreamResponse st hs) = on_response st hs s"
    by (simp add: step_def)
  with assms(3) range have r: "res (step s (UpstreamResponse st hs)) =
     (res s)\<lparr>outHeaders :=
                 fold (\<lambda>(name, v). AList.update name v) (snd (response_head st hs))
                   (outHeaders (res s)),
               headersSent := True, statusCode := or_number st 200\<rparr>"
    by (simp add: on_response_ok)
  have n: "\<not> includes_string [] ''text/event-stream''" by simp
  have "map_of (fold (\<lambda>(name, v). AList.update name v) (snd (response_head st hs))
                   (outHeaders (res s))) ''Content-Type'' =
         Some (case hs ''content-type'' of
                 None \<Rightarrow> ''application/json''
               | Some v \<Rightarrow>
                   if includes_string v ''text/event-stream'' then ''text/event-stream''
                   else if v = [] then ''application/json'' else v)"
    using n
    by (cases "hs ''content-type''")
       (simp_all add: response_head_def Let_def update_conv' or_string_def
         del: includes_string.simps)
  then have ct: "map_of (fold (\<lambda>(name, v). AList.update name v) (snd (response_head st hs))
                   (outHeaders (res s))) ''Content-Type'' =
         Some (case hs ''content-type'' of
                 None \<Rightarrow> ''application/json''
               | Some v \<Rightarrow>
                   if (\<exists>p q. v = p @ ''text/event-stream'' @ q) then ''text/event-stream''
                   else if v = [] then ''application/json'' else v)"
    by (simp only: includes_string_iff)
  have rest: "map_of (fold (\<lambda>(name, v). AList.update name v) (snd (response_head st hs))
                   (outHeaders (res s))) ''Cache-Control'' = Some ''no-cache''"
      "map_of (fold (\<lambda>(name, v). AList.update name v) (snd (response_head st hs))
                   (outHeaders (res s))) ''Connection'' = Some ''keep-alive''"
      "map_of (fold (\<lambda>(name, v). AList.update name v) (snd (response_head st hs))
                   (outHeaders (res s))) ''Access-Control-Allow-Origin'' = Some ''*''"
    by (simp_all add: response_head_def Let_def update_conv')
  have st: "or_number st 200 = (case st of None \<Rightarrow> 200 | Some n \<Rightarrow> if n = 0 then 200 else n)"
    by (simp add: or_number_def)
  from r ct rest st show ?thesis by simp
qed

text \<open>
  Two instances: a head without status and without content type, which gets both
  defaults, and status 201 with a content type that has a parameter after
  \<open>text/event-stream\<close>.
\<close>

theorem response_head_rule_witness:
  "upstream (proxySSE example_URL example_check example_get new_response) =
      Some \<lparr>client = Http, request_options = echo_options ''GET'' ''*/*'' ''application/json'',
           sent = [], ended = True, destroyed = False\<rparr>
   \<and> uncaught (proxySSE example_URL example_check example_get new_response) = None
   \<and> \<not> headersSent (res (proxySSE example_URL example_check example_get new_response))
   \<and> statusCode (res (step (proxySSE example_URL example_check example_get new_response)
         (UpstreamResponse None Map.empty))) = 200
   \<and> map_of (outHeaders (res (step (proxySSE example_URL example_check example_get new_response)
         (UpstreamResponse None Map.empty)))) ''Content-Type'' = Some ''application/json''
   \<and> statusCode (res (step (proxySSE example_URL example_check example_get new_response)
         (UpstreamResponse (Some 201)
            (map_of [(''content-type'', ''text/event-stream; charset=utf-8'')])))) = 201
   \<and> map_of (outHeaders (res (step (proxySSE example_URL example_check example_get new_response)
         (UpstreamResponse (Some 201)
            (map_of [(''content-type'', ''text/event-stream; charset=utf-8'')])))))
        ''Content-Type'' = Some ''text/event-stream''"
proof -
  let ?s0 = "proxySSE example_URL example_check example_get new_response"
  let ?hs = "map_of [(''content-type'', ''text/event-stream; charset=utf-8'')]"
  have h1: "upstream ?s0 =
      Some \<lparr>client = Http, request_options = echo_options ''GET'' ''*/*'' ''application/json'',
           sent = [], ended = True, destroyed = False\<rparr>"
    and h2: "uncaught ?s0 = None" and h3: "\<not> headersSent (res ?s0)"
    by (simp_all add: proxySSE_example_get)
  have h4: "(None :: nat option) = None \<or> None = Some 0
      \<or> (\<exists>n. None = Some n \<and> 100 \<le> n \<and> n \<le> 999)"
    by simp
  have h4': "Some (201::nat) = None \<or> Some (201::nat) = Some 0
      \<or> (\<exists>n. Some (201::nat) = Some n \<and> 100 \<le> n \<and> n \<le> 999)"
    by simp
  have "''text/event-stream; charset=utf-8'' = [] @ ''text/event-stream'' @ ''; charset=utf-8''"
    by simp
  then have ex: "\<exists>p q. ''text/event-stream; charset=utf-8'' = p @ ''text/event-stream'' @ q"
    by blast
  from response_head_rule [OF h1 h2 h3 h4, of Map.empty]
    response_head_rule [OF h1 h2 h3 h4', of ?hs] ex h1 h2 h3
  show ?thesis by simp
qed

text \<open>
  C7. After \<open>proxySSE\<close> has created the outbound request, as long as the head has not
  been sent to the caller, an \<open>error\<close> event of the outbound request is answered with
  status 502 and the body \<open>{"error":"bad gateway","message":m}\<close>, \<open>m\<close> being the JSON
  string of the error's message; the response is ended.
\<close>

theorem upstream_failure_502:
  assumes "upstream (proxySSE new_URL request_error req new_response) = Some up"
    and "uncaught (run (proxySSE new_URL request_error req new_response) evs) = None"
    and "\<not> headersSent (res (run (proxySSE new_URL request_error req new_response) evs))"
  shows \<open>res (step (run (proxySSE new_URL request_error req new_response) evs)
                 (UpstreamError message)) =
     \<lparr>outHeaders = cors_headers @ [(''Content-Type'', ''application/json'')],
      headersSent = True, statusCode = 502,
      body = [''{"error":"bad gateway","message":'' @ quote message @ ''}''],
      finished = True\<rparr>\<close>
proof -
  let ?s = "run (proxySSE new_URL request_error req new_response) evs"
  from run_upstream_Some [OF assms(1)] obtain up' where up: "upstream ?s = Some up'"
    by blast
  from assms(3) have "res ?s = res (proxySSE new_URL request_error req new_response)"
    by (rule run_unsent)
  with assms(1) have r: "res ?s = new_response\<lparr>outHeaders := cors_headers\<rparr>"
    by (simp add: proxySSE_res)
  from up assms(2) have "step ?s (UpstreamError message) = on_upstream_error message ?s"
    by (simp add: step_def)
  with r show ?thesis by (simp add: on_upstream_error_unsent_cors)
qed

text \<open>An instance: the connection is refused while the POST body is coming in.\<close>

theorem upstream_failure_502_witness:
  \<open>upstream (proxySSE example_URL example_check example_post new_response) =
      Some \<lparr>client = Http,
         request_options = echo_options ''POST'' ''text/event-stream'' ''text/plain'',
         sent = [], ended = False, destroyed = False\<rparr>
   \<and> uncaught (run (proxySSE example_URL example_check example_post new_response)
         [RequestData ''ping'']) = None
   \<and> \<not> headersSent (res (run (proxySSE example_URL example_check example_post new_response)
         [RequestData ''ping'']))
   \<and> res (step (run (proxySSE example_URL example_check example_post new_response)
                  [RequestData ''ping''])
            (UpstreamError ''connect ECONNREFUSED 127.0.0.1:9001'')) =
      \<lparr>outHeaders = cors_headers @ [(''Content-Type'', ''application/json'')],
       headersSent = True, statusCode = 502,
       body = [''{"error":"bad gateway","message":"connect ECONNREFUSED 127.0.0.1:9001"}''],
       finished = True\<rparr>\<close>
proof -
  let ?s0 = "proxySSE example_URL example_check example_post new_response"
  have h1: "upstream ?s0 = Some \<lparr>client = Http,
         request_options = echo_options ''POST'' ''text/event-stream'' ''text/plain'',
         sent = [], ended = False, destroyed = False\<rparr>"
    by (simp add: proxySSE_example_post)
  have h2: "uncaught (run ?s0 [RequestData ''ping'']) = None"
    and h3: "\<not> headersSent (res (run ?s0 [RequestData ''ping'']))"
    by (simp_all add: proxySSE_example_post run_Cons run_Nil step_def upstream_write_def)
  from upstream_failure_502 [OF h1 h2 h3, of "''connect ECONNREFUSED 127.0.0.1:9001''"] h1 h2 h3
  show ?thesis by (simp add: quote_def escape_def)
qed

text \<open>
  C3. After the head has been sent, a failure of the outbound connection should only end
  the caller's response; the listener of line 57 does that for an error of the upstream
  response. The \<open>error\<close> listener of line 60-63 guards \<open>writeHead\<close> with \<open>headersSent\<close>
  and then hands the JSON error text to \<open>res.end\<close> in every case. In the streaming
  example the caller has received one chunk: the error of the upstream response ends
  the body there, while the error of the outbound request writes the error text after
  it as the last chunk.
\<close>

theorem upstream_failure_after_head_writes_body:
  \<open>headersSent (res example_stream)
   \<and> body (res example_stream) = [''data: tick'']
   \<and> body (res (step example_stream ResponseError)) = [''data: tick'']
   \<and> finished (res (step example_stream ResponseError))
   \<and> statusCode (res (step example_stream (UpstreamError ''socket hang up''))) = 200
   \<and> finished (res (step example_stream (UpstreamError ''socket hang up'')))
   \<and> body (res (step example_stream (UpstreamError ''socket hang up''))) =
        [''data: tick'', ''{"error":"bad gateway","message":"socket hang up"}'']\<close>
  by (simp add: example_stream_eq step_def on_upstream_error_def res_end_def respond_def
      stringify_error_message quote_def escape_def)

text \<open>
  C8. The claim says that every header of the upstream response is passed on. The head
  of line 49-54 is a literal of four headers, of which only \<open>Content-Type\<close> reads the
  upstream response. The echo upstream sends \<open>x-request-id: 42\<close>; the caller's response
  has the six headers shown and no \<open>x-request-id\<close>.
\<close>

theorem upstream_header_not_forwarded:
  \<open>echo_headers ''x-request-id'' = Some ''42''
   \<and> res (run (proxySSE example_URL example_check example_get new_response)
         [UpstreamResponse (Some 200) echo_headers, ResponseData ''{"ok":true}'', ResponseEnd]) =
      \<lparr>outHeaders = cors_headers @
         [(''Content-Type'', ''application/json''), (''Cache-Control'', ''no-cache''),
          (''Connection'', ''keep-alive'')],
       headersSent = True, statusCode = 200, body = [''{"ok":true}''], finished = True\<rparr>
   \<and> map_of (outHeaders (res (run (proxySSE example_URL example_check example_get new_response)
         [UpstreamResponse (Some 200) echo_headers, ResponseData ''{"ok":true}'', ResponseEnd])))
        ''x-request-id'' = None\<close>
  by (simp add: echo_headers_def proxySSE_example_get run_Cons run_Nil step_def on_response_def
      response_head_def writeHead_def or_number_def or_string_def res_write_def res_end_def
      respond_def cors_headers_def)

text \<open>
  C8 as amended: in an exchange that the upstream answers with a head, body chunks and an
  end (interleaved in any way with the events of the inbound request), the caller gets
  the upstream status (200 when none), the body chunks in their order, and a header set
  in which only \<open>Content-Type\<close> comes from the upstream; the other five headers are
  constants of the proxy, and no other upstream header is passed on.
\<close>

theorem relay_mirrors_status_and_body:
  assumes "upstream (proxySSE new_URL request_error req new_response) = Some up"
    and "st = None \<or> st = Some 0 \<or> (\<exists>n. st = Some n \<and> 100 \<le> n \<and> n \<le> 999)"
    and "filter (\<lambda>ev. \<not> inbound ev) evs =
           UpstreamResponse st hs # map ResponseData chunks @ [ResponseEnd]"
  shows "res (run (proxySSE new_URL request_error req new_response) evs) =
     \<lparr>outHeaders =
        [(''Access-Control-Allow-Origin'', ''*''),
         (''Access-Control-Allow-Methods'', ''GET,POST,OPTIONS,HEAD''),
         (''Access-Control-Allow-Headers'', ''Content-Type, Authorization, Accept, Cache-Control''),
         (''Content-Type'',
            case hs ''content-type'' of
              None \<Rightarrow> ''application/json''
            | Some v \<Rightarrow>
                if (\<exists>p q. v = p @ ''text/event-stream'' @ q) then ''text/event-stream''
                else if v = [] then ''application/json'' else v),
         (''Cache-Control'', ''no-cache''),
         (''Connection'', ''keep-alive'')],
      headersSent = True,
      statusCode = (case st of None \<Rightarrow> 200 | Some n \<Rightarrow> if n = 0 then 200 else n),
      body = chunks,
      finished = True\<rparr>"
proof -
  let ?s0 = "proxySSE new_URL request_error req new_response"
  let ?ct = "case hs ''content-type'' of
              None \<Rightarrow> ''application/json''
            | Some v \<Rightarrow>
                if includes_string v ''text/event-stream'' then ''text/event-stream''
                else if v = [] then ''application/json'' else v"
  let ?r1 = "\<lparr>outHeaders = cors_headers @
        [(''Content-Type'', ?ct), (''Cache-Control'', ''no-cache''), (''Connection'', ''keep-alive'')],
      headersSent = True, statusCode = or_number st 200, body = [], finished = False\<rparr>"
  from assms(2) have range: "100 \<le> or_number st 200" "or_number st 200 \<le> 999"
    by (auto simp: or_number_def)
  from assms(1) have s0: "res ?s0 = new_response\<lparr>outHeaders := cors_headers\<rparr>"
    "uncaught ?s0 = None" "ur_listening ?s0 = False"
    by (rule proxySSE_res)+
  have n: "\<not> includes_string [] ''text/event-stream''" by simp
  have "snd (response_head st hs) =
      [(''Content-Type'', ?ct), (''Cache-Control'', ''no-cache''), (''Connection'', ''keep-alive''),
       (''Access-Control-Allow-Origin'', ''*'')]"
    using n
    by (cases "hs ''content-type''")
       (simp_all add: response_head_def Let_def or_string_def del: includes_string.simps)
  with s0 range have "on_response st hs ?s0 = ?s0\<lparr>res := ?r1, ur_listening := True\<rparr>"
    by (simp add: on_response_ok new_response_def cors_headers_def)
  with assms(1) s0 have 1: "step ?s0 (UpstreamResponse st hs) = ?s0\<lparr>res := ?r1, ur_listening := True\<rparr>"
    by (simp add: step_def)
  let ?s1 = "?s0\<lparr>res := ?r1, ur_listening := True\<rparr>"
  from assms(1) s0 have "run ?s1 (map ResponseData chunks) =
      ?s1\<lparr>res := (res ?s1)\<lparr>body := body (res ?s1) @ chunks\<rparr>\<rparr>"
    by (intro run_response_data [where up = up]) simp_all
  then have 2: "run ?s1 (map ResponseData chunks) = ?s0\<lparr>res := ?r1\<lparr>body := chunks\<rparr>, ur_listening := True\<rparr>"
    by simp
  let ?s2 = "?s0\<lparr>res := ?r1\<lparr>body := chunks\<rparr>, ur_listening := True\<rparr>"
  from assms(1) s0 have 3: "res (step ?s2 ResponseEnd) = ?r1\<lparr>body := chunks, finished := True\<rparr>"
    by (simp add: step_def res_end_def respond_def)
  have "res (run ?s0 evs) = res (run ?s0 (filter (\<lambda>ev. \<not> inbound ev) evs))"
    using assms(1) by (intro run_filter [where up = up and up' = up]) simp_all
  also have "\<dots> = res (step ?s2 ResponseEnd)"
    using 1 2 by (simp add: assms(3) run_Cons run_append run_Nil)
  also note 3
  finally have "res (run ?s0 evs) = ?r1\<lparr>body := chunks, finished := True\<rparr>" .
  then have "res (run ?s0 evs) =
     \<lparr>outHeaders = cors_headers @
        [(''Content-Type'', ?ct), (''Cache-Control'', ''no-cache''), (''Connection'', ''keep-alive'')],
      headersSent = True, statusCode = (case st of None \<Rightarrow> 200 | Some n \<Rightarrow> if n = 0 then 200 else n),
      body = chunks, finished = True\<rparr>"
    by (simp add: or_number_def)
  then show ?thesis
    by (simp only: includes_string_iff cors_headers_def append.simps)
qed

text \<open>
  Two instances: the POST of the examples, the two directions interleaved, and an upstream
  head without status and content type followed by the end.
\<close>

theorem relay_mirrors_status_and_body_witness:
  \<open>upstream (proxySSE example_URL example_check example_post new_response) =
      Some \<lparr>client = Http,
         request_options = echo_options ''POST'' ''text/event-stream'' ''text/plain'',
         sent = [], ended = False, destroyed = False\<rparr>
   \<and> filter (\<lambda>ev. \<not> inbound ev)
        [RequestData ''pi'', UpstreamResponse (Some 200) echo_headers, RequestData ''ng'',
         ResponseData ''{"ok":'', RequestEnd, ResponseData ''true}'', ResponseEnd] =
      UpstreamResponse (Some 200) echo_headers # map ResponseData [''{"ok":'', ''true}'']
        @ [ResponseEnd]
   \<and> res (run (proxySSE example_URL example_check example_post new_response)
        [RequestData ''pi'', UpstreamResponse (Some 200) echo_headers, RequestData ''ng'',
         ResponseData ''{"ok":'', RequestEnd, ResponseData ''true}'', ResponseEnd]) =
      \<lparr>outHeaders = cors_headers @
         [(''Content-Type'', ''application/json''), (''Cache-Control'', ''no-cache''),
          (''Connection'', ''keep-alive'')],
       headersSent = True, statusCode = 200, body = [''{"ok":'', ''true}''], finished = True\<rparr>
   \<and> res (run (proxySSE example_URL example_check example_post new_response)
        [UpstreamResponse None Map.empty, ResponseEnd]) =
      \<lparr>outHeaders = cors_headers @
         [(''Content-Type'', ''application/json''), (''Cache-Control'', ''no-cache''),
          (''Connection'', ''keep-alive'')],
       headersSent = True, statusCode = 200, body = [], finished = True\<rparr>\<close>
proof -
  let ?s0 = "proxySSE example_URL example_check example_post new_response"
  let ?evs = \<open>[RequestData ''pi'', UpstreamResponse (Some 200) echo_headers, RequestData ''ng'',
         ResponseData ''{"ok":'', RequestEnd, ResponseData ''true}'', ResponseEnd]\<close>
  have h1: "upstream ?s0 = Some \<lparr>client = Http,
         request_options = echo_options ''POST'' ''text/event-stream'' ''text/plain'',
         sent = [], ended = False, destroyed = False\<rparr>"
    by (simp add: proxySSE_example_post)
  have h2: "Some (200::nat) = None \<or> Some (200::nat) = Some 0
      \<or> (\<exists>n. Some (200::nat) = Some n \<and> 100 \<le> n \<and> n \<le> 999)"
    by simp
  have h2': "(None :: nat option) = None \<or> None = Some 0
      \<or> (\<exists>n. None = Some n \<and> 100 \<le> n \<and> n \<le> 999)"
    by simp
  have h3: \<open>filter (\<lambda>ev. \<not> inbound ev) ?evs =
      UpstreamResponse (Some 200) echo_headers # map ResponseData [''{"ok":'', ''true}'']
        @ [ResponseEnd]\<close>
    by simp
  have h3': "filter (\<lambda>ev. \<not> inbound ev) [UpstreamResponse None Map.empty, ResponseEnd] =
      UpstreamResponse None Map.empty # map ResponseData [] @ [ResponseEnd]"
    by simp
  have ct: "echo_headers ''content-type'' = Some ''application/json''"
    by (simp add: echo_headers_def)
  have "\<not> includes_string ''application/json'' ''text/event-stream''"
    by simp
  with includes_string_iff [of "''application/json''" "''text/event-stream''"]
  have nex: "\<not> (\<exists>p q. ''application/json'' = p @ ''text/event-stream'' @ q)"
    by blast
  from relay_mirrors_status_and_body [OF h1 h2 h3]
    relay_mirrors_status_and_body [OF h1 h2' h3'] ct nex h1 h3
  show ?thesis by (simp add: cors_headers_def)
qed

subsection \<open>Closing\<close>

text \<open>
  C9. The claim says that a caller disconnect closes the outbound connection. The source
  registers no listener for the \<open>close\<close> event of the inbound request or of the
  response, and it never calls \<open>destroy\<close> on the outbound request. In the streaming
  example, with the relay active, the disconnect leaves the session as it is: the
  outbound request is not destroyed.
\<close>

theorem caller_disconnect_not_propagated:
  "upstream example_stream = Some \<lparr>client = Http,
         request_options = echo_options ''GET'' ''*/*'' ''application/json'',
         sent = [], ended = True, destroyed = False\<rparr>
   \<and> \<not> finished (res example_stream)
   \<and> step example_stream RequestClose = example_stream
   \<and> upstream (step example_stream RequestClose) = Some \<lparr>client = Http,
         request_options = echo_options ''GET'' ''*/*'' ''application/json'',
         sent = [], ended = True, destroyed = False\<rparr>"
  by (simp add: example_stream_eq step_def)

text \<open>
  C9 as amended: in an active relay a caller disconnect triggers no action of the proxy;
  the end or an error of the upstream response, and an error of the outbound request,
  each end the caller's response.
\<close>

theorem upstream_closure_ends_response:
  assumes "upstream s = Some up" and "uncaught s = None" and "ur_listening s"
  shows "step s RequestClose = s
     \<and> finished (res (step s ResponseEnd))
     \<and> finished (res (step s ResponseError))
     \<and> finished (res (step s (UpstreamError message)))"
proof -
  from assms have "finished (res (step s (UpstreamError message)))"
    by (auto simp: step_def on_upstream_error_def Let_def writeHead_def res_end_def respond_def
        split: if_splits)
  with assms show ?thesis
    by (auto simp: step_def res_end_def respond_def)
qed

text \<open>An instance: the streaming example, which is not ended before the event.\<close>

theorem upstream_closure_ends_response_witness:
  "upstream example_stream = Some \<lparr>client = Http,
         request_options = echo_options ''GET'' ''*/*'' ''application/json'',
         sent = [], ended = True, destroyed = False\<rparr>
   \<and> uncaught example_stream = None \<and> ur_listening example_stream
   \<and> \<not> finished (res example_stream)
   \<and> finished (res (step example_stream ResponseEnd))
   \<and> finished (res (step example_stream ResponseError))
   \<and> finished (res (step example_stream (UpstreamError ''aborted'')))"
proof -
  have h1: "upstream example_stream = Some \<lparr>client = Http,
         request_options = echo_options ''GET'' ''*/*'' ''application/json'',
         sent = [], ended = True, destroyed = False\<rparr>"
    and h2: "uncaught example_stream = None" and h3: "ur_listening example_stream"
    and n: "\<not> finished (res example_stream)"
    by (simp_all add: example_stream_eq)
  from upstream_closure_ends_response [OF h1 h2 h3, of "''aborted''"] h1 h2 h3 n
  show ?thesis by simp
qed

end
